theory Spec2Isabelle
  imports Main
begin

section \<open>Python values used by server.py\<close>

text \<open>
  The tools of \<^verbatim>\<open>server.py\<close> build and read JSON documents. A JSON document is a value of
  the datatype below. A Python \<^verbatim>\<open>dict\<close> keeps its keys in insertion order and has each key
  once, so an object is an association list; assigning to a key that is present replaces
  the value in place, assigning to a new key appends it. No function of the server looks
  inside a number, and numbers are the integers here.
\<close>

datatype json =
    JNull
  | JBool bool
  | JInt int
  | JStr string
  | JList "json list"
  | JObj "(string \<times> json) list"

type_synonym dict = "(string \<times> json) list"

text \<open>\<^verbatim>\<open>d[k] = v\<close>\<close>

fun dict_set :: "dict \<Rightarrow> string \<Rightarrow> json \<Rightarrow> dict" where
  "dict_set [] k v = [(k, v)]"
| "dict_set ((k', v') # d) k v = (if k' = k then (k, v) # d else (k', v') # dict_set d k v)"

text \<open>\<^verbatim>\<open>d.get(k)\<close>, with \<open>None\<close> for a missing key, and \<^verbatim>\<open>k in d\<close>\<close>

definition dict_get :: "dict \<Rightarrow> string \<Rightarrow> json option" where
  "dict_get d k = map_of d k"

definition dict_has :: "dict \<Rightarrow> string \<Rightarrow> bool" where
  "dict_has d k = (dict_get d k \<noteq> None)"

text \<open>\<^verbatim>\<open>{**a, **b}\<close>: the items of \<open>a\<close>, then each item of \<open>b\<close> assigned in order\<close>

definition dict_merge :: "dict \<Rightarrow> dict \<Rightarrow> dict" where
  "dict_merge a b = fold (\<lambda>(k, v) d. dict_set d k v) b a"

text \<open>
  A Python \<^verbatim>\<open>str\<close> is a sequence of Unicode characters; a HOL string is a sequence of
  bytes and stands for the text in UTF-8, in which the ASCII characters are the bytes
  below 128 and every other character is made of bytes from 128 on.
\<close>

definition is_ascii :: "string \<Rightarrow> bool" where
  "is_ascii s = list_all (\<lambda>c. \<not> digit7 c) s"

definition upper_char :: "char \<Rightarrow> char" where
  "upper_char c =
     (case map_of (zip ''abcdefghijklmnopqrstuvwxyz'' ''ABCDEFGHIJKLMNOPQRSTUVWXYZ'') c of
        Some u \<Rightarrow> u | None \<Rightarrow> c)"

definition lower_char :: "char \<Rightarrow> char" where
  "lower_char c =
     (case map_of (zip ''ABCDEFGHIJKLMNOPQRSTUVWXYZ'' ''abcdefghijklmnopqrstuvwxyz'') c of
        Some l \<Rightarrow> l | None \<Rightarrow> c)"

text \<open>
  \<^verbatim>\<open>str.upper()\<close>. On ASCII text it changes the letters a to z. On any other text the
  result is read from the Unicode case tables of the interpreter, which are a parameter,
  \<open>tables\<close>: a character outside ASCII can become ASCII letters (the long s, U+017F,
  becomes S, and the ligatures U+FB05 and U+FB06 become ST).
\<close>

definition upper :: "(string \<Rightarrow> string) \<Rightarrow> string \<Rightarrow> string" where
  "upper tables s = (if is_ascii s then map upper_char s else tables s)"

text \<open>
  \<^verbatim>\<open>str.lower()\<close>, on the ASCII letters. It is used for the aspect ratio, which is
  compared with three ASCII words, and for the file name of an upload; the lower case of
  a character outside ASCII is not modelled.
\<close>

definition lower :: "string \<Rightarrow> string" where
  "lower s = map lower_char s"

text \<open>\<^verbatim>\<open>str(n)\<close> for a status code, a natural number, in decimal\<close>

fun str_nat :: "nat \<Rightarrow> string" where
  "str_nat n =
     (if n < 10 then [''0123456789'' ! n]
      else str_nat (n div 10) @ [''0123456789'' ! (n mod 10)])"

declare str_nat.simps [simp del]

text \<open>
  \<^verbatim>\<open>s.replace(old, new)\<close>: every occurrence of \<open>old\<close>, found from the left without overlap,
  becomes \<open>new\<close>. With an empty \<open>old\<close> Python puts \<open>new\<close> before every character and at
  the end.
\<close>

fun replace_ne :: "string \<Rightarrow> string \<Rightarrow> string \<Rightarrow> string" where
  "replace_ne old new [] = []"
| "replace_ne old new (c # cs) =
     (if old \<noteq> [] \<and> take (length old) (c # cs) = old
      then new @ replace_ne old new (drop (length old) (c # cs))
      else c # replace_ne old new cs)"

definition replace :: "string \<Rightarrow> string \<Rightarrow> string \<Rightarrow> string" where
  "replace s old new =
     (if old = [] then new @ concat (map (\<lambda>c. c # new) s) else replace_ne old new s)"

text \<open>The characters that cannot stand inside a string literal of HOL.\<close>

definition sq :: string where
  "sq = [CHR 0x27]"

definition dq :: string where
  "dq = [CHR 0x22]"

definition nl :: string where
  "nl = [CHR 0x0A]"

section \<open>The HTTP client adapter\<close>

text \<open>
  What the adapter takes from outside its body: \<^verbatim>\<open>API_BASE_URL\<close> and \<^verbatim>\<open>API_TOKEN\<close>, read
  from the environment when the module is loaded, and the case tables that \<^verbatim>\<open>str.upper()\<close>
  of the interpreter uses on text outside ASCII.
\<close>

record config =
  api_base_url :: string
  api_token :: string
  str_upper :: "string \<Rightarrow> string"

text \<open>
  The three client calls of \<^verbatim>\<open>make_api_request\<close>, and what each one sends: the URL, the
  headers, the JSON body (\<^verbatim>\<open>client.get\<close> is called without one) and the timeout in
  seconds.
\<close>

datatype http_method = GET | POST | PUT

datatype request =
  Request (req_method: http_method) (req_url: string)
    (req_headers: "(string \<times> string) list") (req_json: "json option") (req_timeout: nat)

text \<open>
  What comes back from httpx. A response has a status code, its raw text, and the value
  of \<^verbatim>\<open>response.json()\<close>: the decoded body, or the message of the exception that decoding
  raises. A call that raises before any response (timeout, connection failure) is
  \<open>Failed\<close> with the message of the exception.
\<close>

datatype response =
  Response (status_code: nat) (resp_text: string) (json_body: "string + json")

datatype outcome = Responded response | Failed string

text \<open>
  The remote side is a function of the requests made so far and the request at hand.
  The adapter threads the list of requests made, oldest first.
\<close>

type_synonym network = "request list \<Rightarrow> request \<Rightarrow> outcome"

text \<open>
  \<^verbatim>\<open>response.raise_for_status()\<close> of httpx raises \<^verbatim>\<open>HTTPStatusError\<close> for every response
  whose status is not in 200..299.
\<close>

definition is_success :: "response \<Rightarrow> bool" where
  "is_success r = (200 \<le> status_code r \<and> status_code r < 300)"

definition error_value :: "string \<Rightarrow> json" where
  "error_value msg = JObj [(''error'', JStr msg)]"

text \<open>
  Lines 45-61 of \<^verbatim>\<open>make_api_request\<close>: the headers, the URL and the choice of the client
  call by the upper-cased method; \<open>None\<close> is the last branch, which returns without a
  call.
\<close>

definition request_for :: "config \<Rightarrow> string \<Rightarrow> string \<Rightarrow> json option \<Rightarrow> request option" where
  "request_for cfg method endpoint data =
     (let headers = [(''Authorization'', ''Bearer '' @ api_token cfg),
                     (''Content-Type'', ''application/json'')];
          url = api_base_url cfg @ endpoint;
          upper_method = upper (str_upper cfg) method
      in if upper_method = ''GET'' then Some (Request GET url headers None 30)
         else if upper_method = ''POST'' then Some (Request POST url headers data 30)
         else if upper_method = ''PUT'' then Some (Request PUT url headers data 30)
         else None)"

text \<open>Lines 63-68: the status check, the decoding and the two exception handlers.\<close>

definition read_outcome :: "outcome \<Rightarrow> json" where
  "read_outcome out =
     (case out of
        Failed msg \<Rightarrow> error_value (''Request failed: '' @ msg)
      | Responded r \<Rightarrow>
          if is_success r
          then (case json_body r of
                  Inr v \<Rightarrow> v
                | Inl msg \<Rightarrow> error_value (''Request failed: '' @ msg))
          else error_value (''HTTP '' @ str_nat (status_code r) @ '': '' @ resp_text r))"

definition make_api_request ::
  "config \<Rightarrow> network \<Rightarrow> request list \<Rightarrow> string \<Rightarrow> string \<Rightarrow> json option
     \<Rightarrow> json \<times> request list" where
  "make_api_request cfg net log method endpoint data =
     (case request_for cfg method endpoint data of
        None \<Rightarrow> (error_value (''Unsupported HTTP method: '' @ method), log)
      | Some req \<Rightarrow> (read_outcome (net log req), log @ [req]))"

section \<open>Card payload builders\<close>

text \<open>
  Every tool returns a string. The CRUD tools return \<^verbatim>\<open>json.dumps(value, indent=2)\<close>; the
  serialiser is the standard library's and no tool inspects its result, so the model keeps
  the value that is serialised (\<open>Dumps\<close>). The media tools return a formatted message
  (\<open>Message\<close>).
\<close>

datatype tool_output = Dumps json | Message string

text \<open>
  Python's truth test on the optional parameters: \<^verbatim>\<open>if v:\<close> is false for \<open>None\<close>, for the
  empty string, for \<open>0\<close> and for \<open>False\<close>; \<^verbatim>\<open>if v is not None:\<close> is false for \<open>None\<close> only.
  Each helper below is one such guarded assignment \<^verbatim>\<open>d[k] = v\<close>.
\<close>

definition set_if_str :: "dict \<Rightarrow> string \<Rightarrow> string option \<Rightarrow> dict" where
  "set_if_str d k v =
     (case v of None \<Rightarrow> d | Some s \<Rightarrow> if s \<noteq> [] then dict_set d k (JStr s) else d)"

definition set_if_int :: "dict \<Rightarrow> string \<Rightarrow> int option \<Rightarrow> dict" where
  "set_if_int d k v =
     (case v of None \<Rightarrow> d | Some n \<Rightarrow> if n \<noteq> 0 then dict_set d k (JInt n) else d)"

definition set_if_not_none_bool :: "dict \<Rightarrow> string \<Rightarrow> bool option \<Rightarrow> dict" where
  "set_if_not_none_bool d k v = (case v of None \<Rightarrow> d | Some b \<Rightarrow> dict_set d k (JBool b))"

definition set_if_not_none_int :: "dict \<Rightarrow> string \<Rightarrow> int option \<Rightarrow> dict" where
  "set_if_not_none_int d k v = (case v of None \<Rightarrow> d | Some n \<Rightarrow> dict_set d k (JInt n))"

definition set_if_not_none_str :: "dict \<Rightarrow> string \<Rightarrow> string option \<Rightarrow> dict" where
  "set_if_not_none_str d k v = (case v of None \<Rightarrow> d | Some s \<Rightarrow> dict_set d k (JStr s))"

text \<open>\<^verbatim>\<open>if flag: d[k] = v\<close> for an optional boolean flag\<close>

definition set_if_flag :: "dict \<Rightarrow> string \<Rightarrow> bool option \<Rightarrow> json \<Rightarrow> dict" where
  "set_if_flag d k flag v = (if flag = Some True then dict_set d k v else d)"

text \<open>The display object that the builders write under \<^verbatim>\<open>_header1\<close> or \<^verbatim>\<open>_header2\<close>.\<close>

definition header :: "string \<Rightarrow> json" where
  "header t = JObj [(''text'', JStr t), (''visibility'', JBool True), (''size'', JStr ''medium'')]"

text \<open>
  The tail of every builder:
  \<^verbatim>\<open>result = await make_api_request("POST", "/api/createCard", card_data)\<close> and
  \<^verbatim>\<open>return json.dumps(result, indent=2)\<close>. A tool call starts with no request made.
\<close>

definition post_card :: "config \<Rightarrow> network \<Rightarrow> dict \<Rightarrow> tool_output \<times> request list" where
  "post_card cfg net card_data =
     (let (result, log) = make_api_request cfg net [] ''POST'' ''/api/createCard''
                            (Some (JObj card_data))
      in (Dumps result, log))"

subsection \<open>create_audio_card\<close>

text \<open>Lines 369-404: the contents of an audio card.\<close>

definition audio_contents ::
  "string \<Rightarrow> string \<Rightarrow> string option \<Rightarrow> string option \<Rightarrow> bool option \<Rightarrow> string option
     \<Rightarrow> string option \<Rightarrow> bool option \<Rightarrow> string option \<Rightarrow> dict" where
  "audio_contents audio_url title background_image_url audio_script audio_generated
       audio_generated_at image_prompt image_generated image_generated_at =
     (let contents = [(''_header1'', header title), (''header1'', JStr title),
                      (''audio'', JStr audio_url)];
          contents = set_if_str contents ''image'' background_image_url;
          contents = set_if_str contents ''audioScript'' audio_script;
          contents = set_if_not_none_bool contents ''audioGenerated'' audio_generated;
          contents = set_if_str contents ''audioGeneratedAt'' audio_generated_at;
          contents = set_if_flag contents ''audioGeneratedBy'' audio_generated
                       (JStr ''CLAUDE_MCP_SERVER'');
          contents = set_if_str contents ''imagePrompt'' image_prompt;
          contents = set_if_not_none_bool contents ''imageGenerated'' image_generated;
          contents = set_if_str contents ''imageGeneratedAt'' image_generated_at;
          contents = set_if_flag contents ''imageGeneratedBy'' image_generated
                       (JStr ''CLAUDE_MCP_SERVER'')
      in contents)"

text \<open>Lines 406-414: the card, with \<^verbatim>\<open>sortOrder\<close> under \<^verbatim>\<open>if sort_order:\<close>.\<close>

definition audio_card_data ::
  "string \<Rightarrow> string \<Rightarrow> string \<Rightarrow> string option \<Rightarrow> string option \<Rightarrow> bool option
     \<Rightarrow> string option \<Rightarrow> string option \<Rightarrow> bool option \<Rightarrow> string option \<Rightarrow> int option
     \<Rightarrow> bool \<Rightarrow> dict" where
  "audio_card_data course_id audio_url title background_image_url audio_script
       audio_generated audio_generated_at image_prompt image_generated image_generated_at
       sort_order is_mandatory =
     (let card_data =
            [(''courseId'', JStr course_id), (''cardType'', JStr ''audio''),
             (''contents'', JObj (audio_contents audio_url title background_image_url
                audio_script audio_generated audio_generated_at image_prompt
                image_generated image_generated_at)),
             (''isMandatory'', JBool is_mandatory)]
      in set_if_int card_data ''sortOrder'' sort_order)"

definition create_audio_card ::
  "config \<Rightarrow> network \<Rightarrow> string \<Rightarrow> string \<Rightarrow> string \<Rightarrow> string option \<Rightarrow> string option
     \<Rightarrow> bool option \<Rightarrow> string option \<Rightarrow> string option \<Rightarrow> bool option \<Rightarrow> string option
     \<Rightarrow> int option \<Rightarrow> bool \<Rightarrow> tool_output \<times> request list" where
  "create_audio_card cfg net course_id audio_url title background_image_url audio_script
       audio_generated audio_generated_at image_prompt image_generated image_generated_at
       sort_order is_mandatory =
     post_card cfg net
       (audio_card_data course_id audio_url title background_image_url audio_script
          audio_generated audio_generated_at image_prompt image_generated
          image_generated_at sort_order is_mandatory)"

subsection \<open>create_content_card\<close>

text \<open>
  The chain of four \<^verbatim>\<open>replace\<close> calls that lines 619 and 628 apply to a header text.
\<close>

definition strip_tags :: "string \<Rightarrow> string" where
  "strip_tags s =
     replace (replace (replace (replace s ''<b>'' '''') ''</b>'' '''') ''<i>'' '''') ''</i>'' ''''"

text \<open>Lines 613-643: the contents of a content card.\<close>

definition content_contents ::
  "string \<Rightarrow> string option \<Rightarrow> string option \<Rightarrow> string option \<Rightarrow> bool option
     \<Rightarrow> string option \<Rightarrow> string \<Rightarrow> dict" where
  "content_contents header1_text header2_text image_url image_prompt image_generated
       image_generated_at align =
     (let contents = [(''_header1'', header header1_text),
                      (''header1'', JStr (strip_tags header1_text))];
          contents =
            (case header2_text of
               None \<Rightarrow> contents
             | Some h2 \<Rightarrow>
                 if h2 \<noteq> []
                 then dict_set (dict_set contents ''_header2'' (header h2))
                        ''header2'' (JStr (strip_tags h2))
                 else contents);
          contents =
            (case image_url of
               None \<Rightarrow> contents
             | Some u \<Rightarrow>
                 if u \<noteq> []
                 then dict_set (dict_set contents ''image'' (JStr u)) ''align'' (JStr align)
                 else contents);
          contents = set_if_str contents ''imagePrompt'' image_prompt;
          contents = set_if_not_none_bool contents ''imageGenerated'' image_generated;
          contents = set_if_str contents ''imageGeneratedAt'' image_generated_at;
          contents = set_if_flag contents ''imageGeneratedBy'' image_generated
                       (JStr ''CLAUDE_MCP_SERVER'')
      in contents)"

text \<open>Lines 645-654.\<close>

definition content_card_data ::
  "string \<Rightarrow> string \<Rightarrow> string option \<Rightarrow> string option \<Rightarrow> string option \<Rightarrow> bool option
     \<Rightarrow> string option \<Rightarrow> string \<Rightarrow> int option \<Rightarrow> bool \<Rightarrow> dict" where
  "content_card_data course_id header1_text header2_text image_url image_prompt
       image_generated image_generated_at align sort_order is_mandatory =
     (let card_data =
            [(''courseId'', JStr course_id), (''cardType'', JStr ''content''),
             (''contents'', JObj (content_contents header1_text header2_text image_url
                image_prompt image_generated image_generated_at align)),
             (''align'', JStr align),
             (''isMandatory'', JBool is_mandatory)]
      in set_if_int card_data ''sortOrder'' sort_order)"

definition create_content_card ::
  "config \<Rightarrow> network \<Rightarrow> string \<Rightarrow> string \<Rightarrow> string option \<Rightarrow> string option
     \<Rightarrow> string option \<Rightarrow> bool option \<Rightarrow> string option \<Rightarrow> string \<Rightarrow> int option \<Rightarrow> bool
     \<Rightarrow> tool_output \<times> request list" where
  "create_content_card cfg net course_id header1_text header2_text image_url image_prompt
       image_generated image_generated_at align sort_order is_mandatory =
     post_card cfg net
       (content_card_data course_id header1_text header2_text image_url image_prompt
          image_generated image_generated_at align sort_order is_mandatory)"

subsection \<open>create_quiz_card\<close>

text \<open>Lines 686-698: the contents of a quiz card.\<close>

definition quiz_contents :: "string \<Rightarrow> string list \<Rightarrow> string \<Rightarrow> string option \<Rightarrow> dict" where
  "quiz_contents question options correct_answer comment =
     (let contents = [(''_header1'', header question), (''header1'', JStr question),
                      (''options'', JList (map JStr options)),
                      (''correct'', JList [JStr correct_answer])]
      in set_if_str contents ''comment'' comment)"

text \<open>Lines 700-708.\<close>

definition quiz_card_data ::
  "string \<Rightarrow> string \<Rightarrow> string list \<Rightarrow> string \<Rightarrow> string option \<Rightarrow> int option \<Rightarrow> bool
     \<Rightarrow> dict" where
  "quiz_card_data course_id question options correct_answer comment sort_order is_mandatory =
     (let card_data =
            [(''courseId'', JStr course_id), (''cardType'', JStr ''quiz''),
             (''contents'', JObj (quiz_contents question options correct_answer comment)),
             (''isMandatory'', JBool is_mandatory)]
      in set_if_int card_data ''sortOrder'' sort_order)"

text \<open>
  Lines 680-684 return before anything is built; the list of requests of such a call is
  empty.
\<close>

definition create_quiz_card ::
  "config \<Rightarrow> network \<Rightarrow> string \<Rightarrow> string \<Rightarrow> string list \<Rightarrow> string \<Rightarrow> string option
     \<Rightarrow> int option \<Rightarrow> bool \<Rightarrow> tool_output \<times> request list" where
  "create_quiz_card cfg net course_id question options correct_answer comment sort_order
       is_mandatory =
     (if length options < 2 \<or> length options > 4
      then (Dumps (error_value ''Quiz must have 2-4 options''), [])
      else if correct_answer \<notin> set options
      then (Dumps (error_value (''Correct answer '' @ sq @ correct_answer @ sq
                      @ '' must be one of the provided options'')), [])
      else post_card cfg net
             (quiz_card_data course_id question options correct_answer comment sort_order
                is_mandatory))"

subsection \<open>create_poll_card, create_form_card, create_video_card, create_link_card\<close>

definition poll_card_data :: "string \<Rightarrow> string \<Rightarrow> string list \<Rightarrow> int option \<Rightarrow> bool \<Rightarrow> dict" where
  "poll_card_data course_id question options sort_order is_mandatory =
     (let contents = [(''_header1'', header question), (''options'', JList (map JStr options))];
          card_data =
            [(''courseId'', JStr course_id), (''cardType'', JStr ''poll''),
             (''contents'', JObj contents), (''isMandatory'', JBool is_mandatory)]
      in set_if_int card_data ''sortOrder'' sort_order)"

definition create_poll_card ::
  "config \<Rightarrow> network \<Rightarrow> string \<Rightarrow> string \<Rightarrow> string list \<Rightarrow> int option \<Rightarrow> bool
     \<Rightarrow> tool_output \<times> request list" where
  "create_poll_card cfg net course_id question options sort_order is_mandatory =
     (if length options < 2 \<or> length options > 4
      then (Dumps (error_value ''Poll must have 2-4 options''), [])
      else post_card cfg net
             (poll_card_data course_id question options sort_order is_mandatory))"

definition form_card_data :: "string \<Rightarrow> string \<Rightarrow> int option \<Rightarrow> bool \<Rightarrow> dict" where
  "form_card_data course_id question sort_order is_mandatory =
     (let contents = [(''_header1'', header question)];
          card_data =
            [(''courseId'', JStr course_id), (''cardType'', JStr ''form''),
             (''contents'', JObj contents), (''isMandatory'', JBool is_mandatory)]
      in set_if_int card_data ''sortOrder'' sort_order)"

definition create_form_card ::
  "config \<Rightarrow> network \<Rightarrow> string \<Rightarrow> string \<Rightarrow> int option \<Rightarrow> bool \<Rightarrow> tool_output \<times> request list" where
  "create_form_card cfg net course_id question sort_order is_mandatory =
     post_card cfg net (form_card_data course_id question sort_order is_mandatory)"

definition video_card_data :: "string \<Rightarrow> string \<Rightarrow> int option \<Rightarrow> bool \<Rightarrow> dict" where
  "video_card_data course_id video_url sort_order is_mandatory =
     (let contents = [(''video'', JStr video_url)];
          card_data =
            [(''courseId'', JStr course_id), (''cardType'', JStr ''video''),
             (''contents'', JObj contents), (''isMandatory'', JBool is_mandatory)]
      in set_if_int card_data ''sortOrder'' sort_order)"

definition create_video_card ::
  "config \<Rightarrow> network \<Rightarrow> string \<Rightarrow> string \<Rightarrow> int option \<Rightarrow> bool \<Rightarrow> tool_output \<times> request list" where
  "create_video_card cfg net course_id video_url sort_order is_mandatory =
     post_card cfg net (video_card_data course_id video_url sort_order is_mandatory)"

definition link_card_data :: "string \<Rightarrow> string \<Rightarrow> string \<Rightarrow> string \<Rightarrow> int option \<Rightarrow> dict" where
  "link_card_data course_id title link_url link_caption sort_order =
     (let contents = [(''_header1'', header title), (''header1'', JStr title),
                      (''link'', JStr link_url), (''linkcaption'', JStr link_caption)];
          card_data =
            [(''courseId'', JStr course_id), (''cardType'', JStr ''link''),
             (''contents'', JObj contents)]
      in set_if_int card_data ''sortOrder'' sort_order)"

definition create_link_card ::
  "config \<Rightarrow> network \<Rightarrow> string \<Rightarrow> string \<Rightarrow> string \<Rightarrow> string \<Rightarrow> int option
     \<Rightarrow> tool_output \<times> request list" where
  "create_link_card cfg net course_id title link_url link_caption sort_order =
     post_card cfg net (link_card_data course_id title link_url link_caption sort_order)"

section \<open>update_card\<close>

text \<open>
  \<open>update_card\<close> has no handler of its own: an exception raised in its body leaves the
  tool. Two classes can arise, both from a fetched document of an unexpected shape.
\<close>

datatype py_exception = TypeError | AttributeError

text \<open>\<^verbatim>\<open>sub in s\<close> for two strings\<close>

fun contains :: "string \<Rightarrow> string \<Rightarrow> bool" where
  "contains [] sub = (sub = [])"
| "contains (c # cs) sub = (take (length sub) (c # cs) = sub \<or> contains cs sub)"

text \<open>
  A value placed in an f-string. A string is inserted as it is; for any other decoded
  JSON value the text is that of Python's \<^verbatim>\<open>str\<close>, which is a parameter here.
\<close>

definition format_value :: "(json \<Rightarrow> string) \<Rightarrow> json \<Rightarrow> string" where
  "format_value py_str v = (case v of JStr s \<Rightarrow> s | _ \<Rightarrow> py_str v)"

text \<open>Lines 903-914: the fields other than the contents, each under \<^verbatim>\<open>is not None\<close>.\<close>

definition other_fields ::
  "dict \<Rightarrow> bool option \<Rightarrow> int option \<Rightarrow> bool option \<Rightarrow> string option \<Rightarrow> dict" where
  "other_fields update_data is_mandatory sort_order is_active card_type =
     (let update_data = set_if_not_none_bool update_data ''isMandatory'' is_mandatory;
          update_data = set_if_not_none_int update_data ''sortOrder'' sort_order;
          update_data = set_if_not_none_bool update_data ''isActive'' is_active;
          update_data = set_if_not_none_str update_data ''cardType'' card_type
      in update_data)"

text \<open>Lines 917-921: nothing to update is an error without a request; otherwise the PUT.\<close>

definition put_card ::
  "config \<Rightarrow> network \<Rightarrow> request list \<Rightarrow> string \<Rightarrow> dict \<Rightarrow> tool_output \<times> request list" where
  "put_card cfg net log card_id update_data =
     (if update_data = [] then (Dumps (error_value ''No update data provided''), log)
      else (let (result, log') = make_api_request cfg net log ''PUT'' (''/api/card/'' @ card_id)
                                   (Some (JObj update_data))
            in (Dumps result, log')))"

text \<open>
  Lines 885-921. With contents given, the current card is fetched first. The fetched
  value is whatever JSON the response held: \<^verbatim>\<open>"error" in current_result\<close> is a key test on
  an object, a substring test on a string, a membership test on a list and a
  \<^verbatim>\<open>TypeError\<close> on anything else; \<^verbatim>\<open>current_result['error']\<close> and \<^verbatim>\<open>current_result.get\<close>
  work on an object only; \<^verbatim>\<open>**current_contents\<close> needs an object.
\<close>

definition update_card ::
  "(json \<Rightarrow> string) \<Rightarrow> config \<Rightarrow> network \<Rightarrow> string \<Rightarrow> dict option \<Rightarrow> bool option
     \<Rightarrow> int option \<Rightarrow> bool option \<Rightarrow> string option
     \<Rightarrow> (py_exception + tool_output) \<times> request list" where
  "update_card py_str cfg net card_id contents is_mandatory sort_order is_active card_type =
     (case contents of
        None \<Rightarrow>
          (let (out, log) = put_card cfg net [] card_id
                              (other_fields [] is_mandatory sort_order is_active card_type)
           in (Inr out, log))
      | Some partial \<Rightarrow>
          (let (current_result, log) =
                 make_api_request cfg net [] ''GET'' (''/api/card/'' @ card_id) None
           in case current_result of
                JObj current \<Rightarrow>
                  (case dict_get current ''error'' of
                     Some e \<Rightarrow>
                       (Inr (Dumps (error_value (''Failed to fetch card for update: ''
                                                  @ format_value py_str e))), log)
                   | None \<Rightarrow>
                       (case (case dict_get current ''contents'' of
                                None \<Rightarrow> JObj [] | Some c \<Rightarrow> c) of
                          JObj current_contents \<Rightarrow>
                            (let merged_contents = dict_merge current_contents partial;
                                 (out, log') =
                                   put_card cfg net log card_id
                                     (other_fields [(''contents'', JObj merged_contents)]
                                        is_mandatory sort_order is_active card_type)
                             in (Inr out, log'))
                        | _ \<Rightarrow> (Inl TypeError, log)))
              | JStr s \<Rightarrow> (Inl (if contains s ''error'' then TypeError else AttributeError), log)
              | JList xs \<Rightarrow>
                  (Inl (if JStr ''error'' \<in> set xs then TypeError else AttributeError), log)
              | _ \<Rightarrow> (Inl TypeError, log)))"

section \<open>Image generation\<close>

type_synonym bytes = string

text \<open>
  The POST of \<open>generate_image_with_azure_openai\<close>: URL, headers, JSON body, query
  parameters and timeout in seconds.
\<close>

datatype image_request =
  Image_request (img_url: string) (img_headers: "(string \<times> string) list")
    (img_json: json) (img_params: "(string \<times> string) list") (img_timeout: nat)

text \<open>
  What the media tools take from outside the program: the Azure OpenAI settings and the
  storage container name from the environment; the current time in Asia/Kolkata as an ISO
  string; the image provider, which stands for lines 195-213 (the POST, the status check
  and the decoding of the first image) and answers a request with the image bytes or with
  the message of the exception raised there; Pillow's re-encoding to WebP at a quality;
  a fresh UUID; and the blob service, which answers an upload to a container and blob
  name with the public URL or with the message of the exception raised.
\<close>

record media =
  azure_openai_api_key :: string
  azure_openai_endpoint :: string
  azure_openai_deployment :: string
  azure_openai_api_version :: string
  azure_container_name :: string
  now_ist :: string
  image_provider :: "image_request \<Rightarrow> string + bytes"
  webp_encoder :: "bytes \<Rightarrow> nat \<Rightarrow> string + bytes"
  new_uuid :: string
  blob_service :: "string \<Rightarrow> string \<Rightarrow> bytes \<Rightarrow> string + string"

text \<open>
  \<^verbatim>\<open>re.match(r'^\d+x\d+$', size)\<close>: digits, an x, digits, and then the end of the string
  or one newline before the end. The digits here are 0 to 9; the tools pass sizes that
  are ASCII constants.
\<close>

definition is_digit :: "char \<Rightarrow> bool" where
  "is_digit c = (c \<in> set ''0123456789'')"

definition size_format_ok :: "string \<Rightarrow> bool" where
  "size_format_ok size' =
     (takeWhile is_digit size' \<noteq> []
      \<and> (case dropWhile is_digit size' of
            [] \<Rightarrow> False
          | c # rest \<Rightarrow>
              c = CHR ''x'' \<and> takeWhile is_digit rest \<noteq> []
              \<and> (dropWhile is_digit rest = [] \<or> dropWhile is_digit rest = nl)))"

text \<open>Lines 186-193: the body of the request.\<close>

definition image_request_data :: "string \<Rightarrow> string \<Rightarrow> string \<Rightarrow> dict" where
  "image_request_data prompt size' output_format =
     [(''prompt'', JStr prompt), (''size'', JStr size'), (''quality'', JStr ''medium''),
      (''output_compression'', JInt 100), (''output_format'', JStr output_format),
      (''n'', JInt 1)]"

text \<open>
  Lines 179-202: the request. The parameter \<open>size'\<close> is the source's \<open>size\<close>, a name
  that HOL has taken.
\<close>

definition image_request_for :: "media \<Rightarrow> string \<Rightarrow> string \<Rightarrow> string \<Rightarrow> image_request" where
  "image_request_for m prompt size' output_format =
     Image_request
       (azure_openai_endpoint m @ ''/openai/deployments/'' @ azure_openai_deployment m
          @ ''/images/generations'')
       [(''Content-Type'', ''application/json''), (''api-key'', azure_openai_api_key m)]
       (JObj (image_request_data prompt size' output_format))
       [(''api-version'', azure_openai_api_version m)]
       60"

text \<open>
  The functions below return \<open>Inl\<close> with the message of the exception they raise, and the
  list of image requests made.
\<close>

definition generate_image_with_azure_openai ::
  "media \<Rightarrow> string \<Rightarrow> string \<Rightarrow> string \<Rightarrow> (string + bytes) \<times> image_request list" where
  "generate_image_with_azure_openai m prompt size' output_format =
     (if \<not> size_format_ok size'
      then (Inl (''Azure OpenAI image generation failed: '' @ ''Invalid size format: '' @ size'
                   @ ''. Must be in format '' @ sq @ ''WIDTHxHEIGHT'' @ sq), [])
      else if output_format \<notin> set [''png'', ''jpg'']
      then (Inl (''Azure OpenAI image generation failed: '' @ ''Invalid output format: ''
                   @ output_format @ ''. Must be '' @ sq @ ''png'' @ sq @ '' or '' @ sq
                   @ ''jpg'' @ sq), [])
      else (let req = image_request_for m prompt size' output_format
            in (case image_provider m req of
                  Inl msg \<Rightarrow> Inl (''Azure OpenAI image generation failed: '' @ msg)
                | Inr image_bytes \<Rightarrow> Inr image_bytes,
                [req])))"

definition convert_image_to_webp :: "media \<Rightarrow> bytes \<Rightarrow> nat \<Rightarrow> string + bytes" where
  "convert_image_to_webp m image_bytes quality =
     (case webp_encoder m image_bytes quality of
        Inl msg \<Rightarrow> Inl (''Image conversion to WebP failed: '' @ msg)
      | Inr webp \<Rightarrow> Inr webp)"

definition upload_to_azure ::
  "media \<Rightarrow> bytes \<Rightarrow> string \<Rightarrow> string \<Rightarrow> string \<Rightarrow> string + string" where
  "upload_to_azure m file_data filename file_type file_extension =
     (let blob_name = file_type @ ''/'' @ filename @ ''_'' @ take 8 (new_uuid m) @ ''.''
                        @ file_extension
      in case blob_service m (azure_container_name m) blob_name file_data of
           Inl msg \<Rightarrow> Inl (''Azure Storage upload failed: '' @ msg)
         | Inr url \<Rightarrow> Inr url)"

definition generate_and_upload_image ::
  "media \<Rightarrow> string \<Rightarrow> string \<Rightarrow> string \<Rightarrow> string \<Rightarrow> (string + string) \<times> image_request list"
  where
  "generate_and_upload_image m prompt title size' output_format =
     (case generate_image_with_azure_openai m prompt size' output_format of
        (Inl e, log) \<Rightarrow> (Inl e, log)
      | (Inr image_data, log) \<Rightarrow>
          (case convert_image_to_webp m image_data 85 of
             Inl e \<Rightarrow> (Inl e, log)
           | Inr webp_data \<Rightarrow>
               (let filename = lower (replace title '' '' ''_'')
                in (upload_to_azure m webp_data filename ''images'' ''webp'', log))))"

text \<open>\<^verbatim>\<open>sep.join(parts)\<close>; the multi-line messages of the tools are their lines joined.\<close>

fun join :: "string \<Rightarrow> string list \<Rightarrow> string" where
  "join sep [] = []"
| "join sep [x] = x"
| "join sep (x # y # ys) = x @ sep @ join sep (y # ys)"

text \<open>Lines 435-461. The size is a constant of the body.\<close>

definition generate_background_image_for_audio ::
  "media \<Rightarrow> string \<Rightarrow> string \<Rightarrow> tool_output \<times> image_request list" where
  "generate_background_image_for_audio m prompt title =
     (let generated_at = now_ist m;
          size' = ''1024x1536''
      in case generate_and_upload_image m prompt title size' ''png'' of
           (Inl e, log) \<Rightarrow> (Message (''Error: '' @ e), log)
         | (Inr url, log) \<Rightarrow>
             (Message (join nl
                [''Background image generated and uploaded successfully!'',
                 '''',
                 ''Image URL: '' @ url,
                 ''Image Format: Portrait (1024x1536) - optimized for audio cards'',
                 '''',
                 ''IMPORTANT: When creating the audio card with this background image, ''
                   @ ''include these parameters:'',
                 ''- background_image_url: '' @ dq @ url @ dq,
                 ''- image_prompt: '' @ dq @ prompt @ dq,
                 ''- image_generated: true'',
                 ''- image_generated_at: '' @ dq @ generated_at @ dq,
                 '''',
                 ''Use create_audio_card with all audio parameters PLUS these image ''
                   @ ''tracking parameters for the background.'',
                 '''',
                 ''Note: The system automatically sets imageGeneratedBy to '' @ sq
                   @ ''CLAUDE_MCP_SERVER'' @ sq @ '' when image_generated is true.'']),
              log))"

text \<open>Lines 526-541: the default and the map from the aspect ratio to the size.\<close>

definition size_for_aspect_ratio :: "string option \<Rightarrow> string" where
  "size_for_aspect_ratio aspect_ratio =
     (let aspect_ratio = (case aspect_ratio of None \<Rightarrow> ''square'' | Some a \<Rightarrow> a)
      in if lower aspect_ratio = ''square'' then ''1024x1024''
         else if lower aspect_ratio = ''portrait'' then ''1024x1536''
         else if lower aspect_ratio = ''landscape'' then ''1536x1024''
         else ''1024x1024'')"

text \<open>Lines 521-564.\<close>

definition generate_image_from_text ::
  "media \<Rightarrow> string \<Rightarrow> string \<Rightarrow> string option \<Rightarrow> string option
     \<Rightarrow> tool_output \<times> image_request list" where
  "generate_image_from_text m prompt title aspect_ratio output_format =
     (let generated_at = now_ist m;
          output_format = (case output_format of None \<Rightarrow> ''png'' | Some f \<Rightarrow> f);
          size' = size_for_aspect_ratio aspect_ratio
      in if output_format \<notin> set [''png'', ''jpg'']
         then (Message (''Error: Invalid output format '' @ sq @ output_format @ sq
                          @ ''. Must be '' @ sq @ ''png'' @ sq @ '' or '' @ sq @ ''jpg'' @ sq),
               [])
         else case generate_and_upload_image m prompt title size' output_format of
                (Inl e, log) \<Rightarrow> (Message (''Error: '' @ e), log)
              | (Inr url, log) \<Rightarrow>
                  (Message (join nl
                     [''Image generated and uploaded successfully!'',
                      '''',
                      ''Image URL: '' @ url,
                      '''',
                      ''IMPORTANT: When creating content or audio cards with this image, ''
                        @ ''include these parameters to properly track generated images:'',
                      ''- image_prompt: '' @ dq @ prompt @ dq,
                      ''- image_generated: true'',
                      ''- image_generated_at: '' @ dq @ generated_at @ dq,
                      '''',
                      ''For content cards: Use create_content_card with image_url, ''
                        @ ''image_prompt, image_generated, and image_generated_at parameters.'',
                      ''For audio cards (background image): Use create_audio_card with ''
                        @ ''background_image_url, image_prompt, image_generated, and ''
                        @ ''image_generated_at parameters.'',
                      '''',
                      ''Note: The system automatically sets imageGeneratedBy to '' @ sq
                        @ ''CLAUDE_MCP_SERVER'' @ sq @ '' when image_generated is true.'']),
                   log))"

section \<open>Marked-up text\<close>

text \<open>
  What "a text with exactly the literal tags removed" means, in the words of the
  specification and apart from the code: \<open>remove_tags\<close> reads the text once from the left
  and leaves out every occurrence of one of the four tags that it meets.

  A header as an author writes it is a sequence of pieces, each a run of plain text or
  one of the four tags; it is written by putting the pieces one after another, and its
  plain text is the runs alone. A run of plain text has no \<open><\<close> in it.
\<close>

fun remove_tags :: "string \<Rightarrow> string" where
  "remove_tags [] = []"
| "remove_tags (c # cs) =
     (if take 3 (c # cs) = ''<b>'' then remove_tags (drop 3 (c # cs))
      else if take 4 (c # cs) = ''</b>'' then remove_tags (drop 4 (c # cs))
      else if take 3 (c # cs) = ''<i>'' then remove_tags (drop 3 (c # cs))
      else if take 4 (c # cs) = ''</i>'' then remove_tags (drop 4 (c # cs))
      else c # remove_tags cs)"

datatype piece = Plain string | Bold_open | Bold_close | Italic_open | Italic_close

fun piece_text :: "piece \<Rightarrow> string" where
  "piece_text (Plain s) = s"
| "piece_text Bold_open = ''<b>''"
| "piece_text Bold_close = ''</b>''"
| "piece_text Italic_open = ''<i>''"
| "piece_text Italic_close = ''</i>''"

definition render :: "piece list \<Rightarrow> string" where
  "render ps = concat (map piece_text ps)"

fun plain_of :: "piece \<Rightarrow> string" where
  "plain_of (Plain s) = s"
| "plain_of Bold_open = []"
| "plain_of Bold_close = []"
| "plain_of Italic_open = []"
| "plain_of Italic_close = []"

definition plain_text :: "piece list \<Rightarrow> string" where
  "plain_text ps = concat (map plain_of ps)"

fun no_bracket :: "piece \<Rightarrow> bool" where
  "no_bracket (Plain s) = (CHR ''<'' \<notin> set s)"
| "no_bracket Bold_open = True"
| "no_bracket Bold_close = True"
| "no_bracket Italic_open = True"
| "no_bracket Italic_close = True"

definition well_marked :: "piece list \<Rightarrow> bool" where
  "well_marked ps = list_all no_bracket ps"

section \<open>Inputs for the examples\<close>

text \<open>
  A part of the case tables: the long s, which is the bytes C5 BF, becomes S, and the
  ASCII letters become capitals.
\<close>

definition long_s_upper :: "string \<Rightarrow> string" where
  "long_s_upper s = map upper_char (replace s [CHR 0xC5, CHR 0xBF] ''S'')"

definition example_config :: config where
  "example_config =
     \<lparr>api_base_url = ''https://api.example'', api_token = ''secret'',
      str_upper = long_s_upper\<rparr>"

text \<open>A remote side that answers every request with the status 404.\<close>

definition not_found :: network where
  "not_found log req = Responded (Response 404 ''Not Found'' (Inl ''no body''))"

text \<open>A remote side that cannot be reached.\<close>

definition offline :: network where
  "offline log req = Failed ''connection refused''"

text \<open>
  A remote side that holds one card with the contents a = 1 and b = 2, and accepts every
  write.
\<close>

definition card_server :: network where
  "card_server log req =
     (case req_method req of
        GET \<Rightarrow>
          Responded (Response 200 ''(the card)''
            (Inr (JObj [(''id'', JStr ''k1''),
                        (''contents'', JObj [(''a'', JInt 1), (''b'', JInt 2)])])))
      | _ \<Rightarrow> Responded (Response 200 ''(the answer)'' (Inr (JObj [(''ok'', JBool True)]))))"

text \<open>Media services in which every stage succeeds.\<close>

definition example_media :: media where
  "example_media =
     \<lparr>azure_openai_api_key = ''key'',
      azure_openai_endpoint = ''https://img.example'',
      azure_openai_deployment = ''gpt-image-1'',
      azure_openai_api_version = ''2025-04-01-preview'',
      azure_container_name = ''audio-files'',
      now_ist = ''2025-01-01T10:00:00+05:30'',
      image_provider = (\<lambda>req. Inr ''png bytes''),
      webp_encoder = (\<lambda>image quality. Inr ''webp bytes''),
      new_uuid = ''123e4567-e89b-12d3-a456-426614174000'',
      blob_service = (\<lambda>container blob data.
                        Inr (''https://store.example/'' @ container @ ''/'' @ blob))\<rparr>"

section \<open>Properties\<close>

subsection \<open>The HTTP client adapter\<close>

text \<open>The three method names are ASCII capitals, which \<open>upper\<close> leaves as they are.\<close>

lemma upper_method_names:
  "upper tables ''GET'' = ''GET''" "upper tables ''POST'' = ''POST''"
  "upper tables ''PUT'' = ''PUT''"
  by (simp_all add: upper_def is_ascii_def upper_char_def)

text \<open>
  C8. A call of \<open>make_api_request\<close> whose upper-cased method is none of GET, POST and PUT
  returns the unsupported-method error and leaves the list of requests as it was. When
  the method is one of the three and the response has a status outside 200..299, the
  result is the error value made of the status code and the raw text of the response.
  The upper-cased method is that of \<^verbatim>\<open>str.upper()\<close>, with the case tables of the
  interpreter for a method outside ASCII.
\<close>

theorem make_api_request_errors:
  "(upper (str_upper cfg) method \<noteq> ''GET'' \<and> upper (str_upper cfg) method \<noteq> ''POST''
      \<and> upper (str_upper cfg) method \<noteq> ''PUT'' \<longrightarrow>
      make_api_request cfg net log method endpoint data =
        (JObj [(''error'', JStr (''Unsupported HTTP method: '' @ method))], log))
   \<and> (request_for cfg method endpoint data = Some req \<and> net log req = Responded r
        \<and> \<not> (200 \<le> status_code r \<and> status_code r < 300) \<longrightarrow>
      make_api_request cfg net log method endpoint data =
        (JObj [(''error'', JStr (''HTTP '' @ str_nat (status_code r) @ '': '' @ resp_text r))],
         log @ [req]))"
  by (simp add: make_api_request_def request_for_def read_outcome_def is_success_def
      error_value_def Let_def)

text \<open>
  The three inputs of the witness: delete, which is not supported; get, in small letters;
  and post written with the long s, which the interpreter upper-cases to POST, so that
  the request is made.
\<close>

theorem make_api_request_errors_witness:
  "make_api_request example_config not_found [] ''delete'' ''/api/card/7'' None
     = (JObj [(''error'', JStr ''Unsupported HTTP method: delete'')], [])
   \<and> make_api_request example_config not_found [] ''get'' ''/api/card/7'' None
     = (JObj [(''error'', JStr ''HTTP 404: Not Found'')],
        [Request GET ''https://api.example/api/card/7''
           [(''Authorization'', ''Bearer secret''), (''Content-Type'', ''application/json'')]
           None 30])
   \<and> make_api_request example_config not_found [] [CHR ''p'', CHR ''o'', CHR 0xC5, CHR 0xBF, CHR ''t'']
       ''/api/createCard'' (Some (JObj []))
     = (JObj [(''error'', JStr ''HTTP 404: Not Found'')],
        [Request POST ''https://api.example/api/createCard''
           [(''Authorization'', ''Bearer secret''), (''Content-Type'', ''application/json'')]
           (Some (JObj [])) 30])"
proof -
  let ?get = "Request GET ''https://api.example/api/card/7''
                [(''Authorization'', ''Bearer secret''), (''Content-Type'', ''application/json'')]
                None 30"
  let ?post = "Request POST ''https://api.example/api/createCard''
                 [(''Authorization'', ''Bearer secret''), (''Content-Type'', ''application/json'')]
                 (Some (JObj [])) 30"
  let ?long_s = "[CHR ''p'', CHR ''o'', CHR 0xC5, CHR 0xBF, CHR ''t'']"
  let ?r = "Response 404 ''Not Found'' (Inl ''no body'')"
  have unsupported:
    "upper (str_upper example_config) ''delete'' \<noteq> ''GET''
     \<and> upper (str_upper example_config) ''delete'' \<noteq> ''POST''
     \<and> upper (str_upper example_config) ''delete'' \<noteq> ''PUT''"
    by (simp add: upper_def is_ascii_def upper_char_def)
  have small: "request_for example_config ''get'' ''/api/card/7'' None = Some ?get"
    by (simp add: request_for_def upper_def is_ascii_def upper_char_def example_config_def
        Let_def)
  have long_s: "upper (str_upper example_config) ?long_s = ''POST''"
    by (simp add: upper_def is_ascii_def example_config_def long_s_upper_def replace_def
        upper_char_def)
  have written: "request_for example_config ?long_s ''/api/createCard'' (Some (JObj []))
      = Some ?post"
    unfolding request_for_def Let_def long_s
    by (simp add: example_config_def)
  have answer: "not_found log req = Responded ?r
      \<and> \<not> (200 \<le> status_code ?r \<and> status_code ?r < 300)" for log req
    by (simp add: not_found_def)
  have code: "str_nat 404 = ''404''"
    by (simp add: str_nat.simps)
  from unsupported
    make_api_request_errors [of example_config "''delete''" not_found "[]" "''/api/card/7''" None]
  have first: "make_api_request example_config not_found [] ''delete'' ''/api/card/7'' None
      = (JObj [(''error'', JStr ''Unsupported HTTP method: delete'')], [])"
    by simp
  from small answer [of "[]" ?get] code
    make_api_request_errors [of example_config "''get''" not_found "[]" "''/api/card/7''" None
      ?get ?r]
  have second: "make_api_request example_config not_found [] ''get'' ''/api/card/7'' None
      = (JObj [(''error'', JStr ''HTTP 404: Not Found'')], [?get])"
    by simp
  from written answer [of "[]" ?post] code
    make_api_request_errors [of example_config ?long_s not_found "[]" "''/api/createCard''"
      "Some (JObj [])" ?post ?r]
  have third: "make_api_request example_config not_found [] ?long_s ''/api/createCard''
      (Some (JObj []))
      = (JObj [(''error'', JStr ''HTTP 404: Not Found'')], [?post])"
    by simp
  from first second third show ?thesis
    by simp
qed

subsection \<open>Reading a dictionary that a builder has written\<close>

lemma dict_get_Nil: "dict_get [] k = None"
  by (simp add: dict_get_def)

lemma dict_get_Cons:
  "dict_get ((k, v) # d) k' = (if k' = k then Some v else dict_get d k')"
  by (simp add: dict_get_def)

lemma dict_get_dict_set:
  "dict_get (dict_set d k v) k' = (if k' = k then Some v else dict_get d k')"
  by (induction d) (auto simp: dict_get_def)

lemma dict_get_set_if_str:
  "dict_get (set_if_str d k v) k' =
     (if k' = k \<and> v \<noteq> None \<and> v \<noteq> Some [] then Some (JStr (the v)) else dict_get d k')"
  by (cases v) (simp_all add: set_if_str_def dict_get_dict_set)

lemma dict_get_set_if_int:
  "dict_get (set_if_int d k v) k' =
     (if k' = k \<and> v \<noteq> None \<and> v \<noteq> Some 0 then Some (JInt (the v)) else dict_get d k')"
  by (cases v) (simp_all add: set_if_int_def dict_get_dict_set)

lemma dict_get_set_if_not_none_bool:
  "dict_get (set_if_not_none_bool d k v) k' =
     (if k' = k \<and> v \<noteq> None then Some (JBool (the v)) else dict_get d k')"
  by (cases v) (simp_all add: set_if_not_none_bool_def dict_get_dict_set)

lemma dict_get_set_if_not_none_int:
  "dict_get (set_if_not_none_int d k v) k' =
     (if k' = k \<and> v \<noteq> None then Some (JInt (the v)) else dict_get d k')"
  by (cases v) (simp_all add: set_if_not_none_int_def dict_get_dict_set)

lemma dict_get_set_if_not_none_str:
  "dict_get (set_if_not_none_str d k v) k' =
     (if k' = k \<and> v \<noteq> None then Some (JStr (the v)) else dict_get d k')"
  by (cases v) (simp_all add: set_if_not_none_str_def dict_get_dict_set)

lemma dict_get_set_if_flag:
  "dict_get (set_if_flag d k flag v) k' =
     (if k' = k \<and> flag = Some True then Some v else dict_get d k')"
  by (simp add: set_if_flag_def dict_get_dict_set)

lemmas dict_get_simps =
  dict_get_Nil dict_get_Cons dict_get_dict_set dict_get_set_if_str dict_get_set_if_int
  dict_get_set_if_not_none_bool dict_get_set_if_not_none_int dict_get_set_if_not_none_str
  dict_get_set_if_flag

text \<open>A builder that reaches its last two lines makes exactly one request, a POST.\<close>

lemma post_card_log:
  "snd (post_card cfg net card_data) =
     [Request POST (api_base_url cfg @ ''/api/createCard'')
        [(''Authorization'', ''Bearer '' @ api_token cfg),
         (''Content-Type'', ''application/json'')]
        (Some (JObj card_data)) 30]"
  by (simp add: post_card_def make_api_request_def request_for_def upper_method_names Let_def)

subsection \<open>Quiz cards\<close>

text \<open>
  C2. When a quiz has fewer than two or more than four options, \<open>create_quiz_card\<close>
  returns the error about the number of options; when the number is right and the correct
  answer is not one of the options (compared as strings, exactly), it returns the error
  about the answer. In both cases its list of requests is empty. With the single option
  a and the correct answer a the error is the one about the number of options.
\<close>

theorem create_quiz_card_rejects:
  "(length options < 2 \<or> length options > 4 \<longrightarrow>
      create_quiz_card cfg net course_id question options correct_answer comment sort_order
        is_mandatory
      = (Dumps (JObj [(''error'', JStr ''Quiz must have 2-4 options'')]), []))
   \<and> (2 \<le> length options \<and> length options \<le> 4 \<and> correct_answer \<notin> set options \<longrightarrow>
      create_quiz_card cfg net course_id question options correct_answer comment sort_order
        is_mandatory
      = (Dumps (JObj [(''error'',
                       JStr (''Correct answer '' @ [CHR 0x27] @ correct_answer @ [CHR 0x27]
                               @ '' must be one of the provided options''))]), []))
   \<and> create_quiz_card cfg net ''c1'' ''Q'' [''a''] ''a'' comment sort_order is_mandatory
       = (Dumps (JObj [(''error'', JStr ''Quiz must have 2-4 options'')]), [])"
  by (simp add: create_quiz_card_def error_value_def sq_def)

theorem create_quiz_card_rejects_witness:
  "create_quiz_card example_config offline ''c1'' ''Q'' [''a'', ''b'', ''c'', ''d'', ''e''] ''a''
      None None True
     = (Dumps (JObj [(''error'', JStr ''Quiz must have 2-4 options'')]), [])
   \<and> create_quiz_card example_config offline ''c1'' ''Q'' [''a'', ''b''] ''A'' None None True
     = (Dumps (JObj [(''error'',
                      JStr (''Correct answer '' @ [CHR 0x27] @ ''A'' @ [CHR 0x27]
                              @ '' must be one of the provided options''))]), [])
   \<and> create_quiz_card example_config offline ''c1'' ''Q'' [''a''] ''a'' None None True
     = (Dumps (JObj [(''error'', JStr ''Quiz must have 2-4 options'')]), [])"
proof -
  have many: "length [''a'', ''b'', ''c'', ''d'', ''e''] < 2 \<or> length [''a'', ''b'', ''c'', ''d'', ''e''] > 4"
    by simp
  have other: "2 \<le> length [''a'', ''b''] \<and> length [''a'', ''b''] \<le> 4 \<and> ''A'' \<notin> set [''a'', ''b'']"
    by simp
  note r = create_quiz_card_rejects [where cfg = example_config and net = offline
      and course_id = "''c1''" and question = "''Q''" and comment = None
      and sort_order = None and is_mandatory = True]
  from many r [where options = "[''a'', ''b'', ''c'', ''d'', ''e'']" and correct_answer = "''a''"]
  have first: "create_quiz_card example_config offline ''c1'' ''Q''
      [''a'', ''b'', ''c'', ''d'', ''e''] ''a'' None None True
      = (Dumps (JObj [(''error'', JStr ''Quiz must have 2-4 options'')]), [])"
    by blast
  from other r [where options = "[''a'', ''b'']" and correct_answer = "''A''"]
  have second: "create_quiz_card example_config offline ''c1'' ''Q'' [''a'', ''b''] ''A'' None
      None True
      = (Dumps (JObj [(''error'',
                       JStr (''Correct answer '' @ [CHR 0x27] @ ''A'' @ [CHR 0x27]
                               @ '' must be one of the provided options''))]), [])"
    by blast
  from r [where options = "[]" and correct_answer = "''a''"]
  have third: "create_quiz_card example_config offline ''c1'' ''Q'' [''a''] ''a'' None None True
      = (Dumps (JObj [(''error'', JStr ''Quiz must have 2-4 options'')]), [])"
    by blast
  from first second third show ?thesis
    by blast
qed

text \<open>
  C6. With two to four options and a correct answer among them, \<open>create_quiz_card\<close>
  makes one request, the POST of the quiz card: its \<^verbatim>\<open>cardType\<close> is quiz, its contents
  carry the options as given and the correct answer as a list of one element.
\<close>

theorem create_quiz_card_payload:
  "2 \<le> length options \<and> length options \<le> 4 \<and> correct_answer \<in> set options \<longrightarrow>
     (let card = quiz_card_data course_id question options correct_answer comment
                   sort_order is_mandatory;
          contents = quiz_contents question options correct_answer comment
      in snd (create_quiz_card cfg net course_id question options correct_answer comment
                sort_order is_mandatory)
           = [Request POST (api_base_url cfg @ ''/api/createCard'')
                [(''Authorization'', ''Bearer '' @ api_token cfg),
                 (''Content-Type'', ''application/json'')]
                (Some (JObj card)) 30]
         \<and> dict_get card ''cardType'' = Some (JStr ''quiz'')
         \<and> dict_get card ''contents'' = Some (JObj contents)
         \<and> dict_get contents ''options'' = Some (JList (map JStr options))
         \<and> dict_get contents ''correct'' = Some (JList [JStr correct_answer]))"
  by (simp add: create_quiz_card_def post_card_log quiz_card_data_def quiz_contents_def
      Let_def dict_get_simps)

theorem create_quiz_card_payload_witness:
  "snd (create_quiz_card example_config offline ''c1'' ''2+2?'' [''3'', ''4'', ''5''] ''4''
          None None True)
     = [Request POST ''https://api.example/api/createCard''
          [(''Authorization'', ''Bearer secret''), (''Content-Type'', ''application/json'')]
          (Some (JObj
             [(''courseId'', JStr ''c1''),
              (''cardType'', JStr ''quiz''),
              (''contents'', JObj
                 [(''_header1'', JObj [(''text'', JStr ''2+2?''), (''visibility'', JBool True),
                                       (''size'', JStr ''medium'')]),
                  (''header1'', JStr ''2+2?''),
                  (''options'', JList [JStr ''3'', JStr ''4'', JStr ''5'']),
                  (''correct'', JList [JStr ''4''])]),
              (''isMandatory'', JBool True)]))
          30]
   \<and> dict_get (quiz_contents ''2+2?'' [''3'', ''4'', ''5''] ''4'' None) ''options''
       = Some (JList [JStr ''3'', JStr ''4'', JStr ''5''])
   \<and> dict_get (quiz_contents ''2+2?'' [''3'', ''4'', ''5''] ''4'' None) ''correct''
       = Some (JList [JStr ''4''])"
proof -
  have ok: "2 \<le> length [''3'', ''4'', ''5''] \<and> length [''3'', ''4'', ''5''] \<le> 4
      \<and> ''4'' \<in> set [''3'', ''4'', ''5'']"
    by simp
  from ok create_quiz_card_payload [where options = "[''3'', ''4'', ''5'']"
      and correct_answer = "''4''" and course_id = "''c1''" and question = "''2+2?''"
      and comment = None and sort_order = None and is_mandatory = True
      and cfg = example_config and net = offline]
  show ?thesis
    by (simp add: Let_def example_config_def quiz_card_data_def quiz_contents_def
        header_def set_if_int_def set_if_str_def)
qed

subsection \<open>Provenance of generated media\<close>

text \<open>
  C3. \<open>create_audio_card\<close> and \<open>create_content_card\<close> post a card whose contents have
  the key \<^verbatim>\<open>imageGeneratedBy\<close> exactly when \<open>image_generated\<close> is true, and the value is
  then the constant CLAUDE_MCP_SERVER, whatever the other parameters are; no parameter
  supplies this field. The audio card has \<^verbatim>\<open>audioGeneratedBy\<close> in the same way, by
  \<open>audio_generated\<close>.
\<close>

theorem generated_by_stamp:
  "(let card = audio_card_data course_id audio_url title background_image_url audio_script
                 audio_generated audio_generated_at image_prompt image_generated
                 image_generated_at sort_order is_mandatory;
        contents = audio_contents audio_url title background_image_url audio_script
                     audio_generated audio_generated_at image_prompt image_generated
                     image_generated_at
    in map req_json (snd (create_audio_card cfg net course_id audio_url title
                            background_image_url audio_script audio_generated
                            audio_generated_at image_prompt image_generated
                            image_generated_at sort_order is_mandatory))
         = [Some (JObj card)]
       \<and> dict_get card ''contents'' = Some (JObj contents)
       \<and> dict_get contents ''imageGeneratedBy''
           = (if image_generated = Some True then Some (JStr ''CLAUDE_MCP_SERVER'') else None)
       \<and> dict_get contents ''audioGeneratedBy''
           = (if audio_generated = Some True then Some (JStr ''CLAUDE_MCP_SERVER'') else None))
   \<and> (let card = content_card_data course_id header1_text header2_text image_url
                    image_prompt image_generated image_generated_at align sort_order
                    is_mandatory;
           contents = content_contents header1_text header2_text image_url image_prompt
                        image_generated image_generated_at align
       in map req_json (snd (create_content_card cfg net course_id header1_text header2_text
                               image_url image_prompt image_generated image_generated_at
                               align sort_order is_mandatory))
            = [Some (JObj card)]
          \<and> dict_get card ''contents'' = Some (JObj contents)
          \<and> dict_get contents ''imageGeneratedBy''
              = (if image_generated = Some True then Some (JStr ''CLAUDE_MCP_SERVER'')
                 else None))"
proof -
  have audio_image:
    "dict_get (audio_contents audio_url title background_image_url audio_script
                 audio_generated audio_generated_at image_prompt image_generated
                 image_generated_at) ''imageGeneratedBy''
       = (if image_generated = Some True then Some (JStr ''CLAUDE_MCP_SERVER'') else None)"
    by (simp add: audio_contents_def Let_def dict_get_simps)
  have audio_audio:
    "dict_get (audio_contents audio_url title background_image_url audio_script
                 audio_generated audio_generated_at image_prompt image_generated
                 image_generated_at) ''audioGeneratedBy''
       = (if audio_generated = Some True then Some (JStr ''CLAUDE_MCP_SERVER'') else None)"
    by (simp add: audio_contents_def Let_def dict_get_simps)
  have content_image:
    "dict_get (content_contents header1_text header2_text image_url image_prompt
                 image_generated image_generated_at align) ''imageGeneratedBy''
       = (if image_generated = Some True then Some (JStr ''CLAUDE_MCP_SERVER'') else None)"
    by (simp add: content_contents_def Let_def dict_get_simps split: option.splits)
  have audio_card:
    "dict_get (audio_card_data course_id audio_url title background_image_url audio_script
                 audio_generated audio_generated_at image_prompt image_generated
                 image_generated_at sort_order is_mandatory) ''contents''
       = Some (JObj (audio_contents audio_url title background_image_url audio_script
                       audio_generated audio_generated_at image_prompt image_generated
                       image_generated_at))"
    by (simp add: audio_card_data_def Let_def dict_get_simps)
  have content_card:
    "dict_get (content_card_data course_id header1_text header2_text image_url image_prompt
                 image_generated image_generated_at align sort_order is_mandatory)
       ''contents''
       = Some (JObj (content_contents header1_text header2_text image_url image_prompt
                       image_generated image_generated_at align))"
    by (simp add: content_card_data_def Let_def dict_get_simps)
  show ?thesis
    unfolding Let_def create_audio_card_def create_content_card_def post_card_log
    using audio_image audio_audio content_image audio_card content_card by simp
qed

theorem generated_by_stamp_witness:
  "dict_get (audio_contents ''https://cdn.example/a.mp3'' ''Intro'' None None None None None
               (Some True) None) ''imageGeneratedBy'' = Some (JStr ''CLAUDE_MCP_SERVER'')
   \<and> dict_get (audio_contents ''https://cdn.example/a.mp3'' ''Intro'' None None None None
                 None (Some False) None) ''imageGeneratedBy'' = None
   \<and> dict_get (content_contents ''Welcome'' None None None (Some True) None
                 ''center center'') ''imageGeneratedBy'' = Some (JStr ''CLAUDE_MCP_SERVER'')
   \<and> dict_get (content_contents ''Welcome'' None None None None None ''center center'')
       ''imageGeneratedBy'' = None"
  using
    generated_by_stamp [where audio_url = "''https://cdn.example/a.mp3''"
      and title = "''Intro''" and background_image_url = None and audio_script = None
      and audio_generated = None and audio_generated_at = None and image_prompt = None
      and image_generated = "Some True" and image_generated_at = None
      and header1_text = "''Welcome''" and header2_text = None and image_url = None
      and align = "''center center''"]
    generated_by_stamp [where audio_url = "''https://cdn.example/a.mp3''"
      and title = "''Intro''" and background_image_url = None and audio_script = None
      and audio_generated = None and audio_generated_at = None and image_prompt = None
      and image_generated = "Some False" and image_generated_at = None
      and header1_text = "''Welcome''" and header2_text = None and image_url = None
      and align = "''center center''"]
    generated_by_stamp [where audio_url = "''https://cdn.example/a.mp3''"
      and title = "''Intro''" and background_image_url = None and audio_script = None
      and audio_generated = None and audio_generated_at = None and image_prompt = None
      and image_generated = None and image_generated_at = None
      and header1_text = "''Welcome''" and header2_text = None and image_url = None
      and align = "''center center''"]
  by (simp add: Let_def)

subsection \<open>The sort order\<close>

text \<open>
  C10. In each of the seven builders a \<open>sort_order\<close> of 0 gives the same result and the
  same request as no \<open>sort_order\<close>, and the card has no \<^verbatim>\<open>sortOrder\<close> key: the builders
  test \<^verbatim>\<open>if sort_order:\<close>.
\<close>

theorem sort_order_zero_is_omitted:
  "create_audio_card cfg net course_id audio_url title background_image_url audio_script
       audio_generated audio_generated_at image_prompt image_generated image_generated_at
       (Some 0) is_mandatory
     = create_audio_card cfg net course_id audio_url title background_image_url audio_script
         audio_generated audio_generated_at image_prompt image_generated image_generated_at
         None is_mandatory
   \<and> dict_get (audio_card_data course_id audio_url title background_image_url audio_script
         audio_generated audio_generated_at image_prompt image_generated image_generated_at
         (Some 0) is_mandatory) ''sortOrder'' = None
   \<and> create_content_card cfg net course_id header1_text header2_text image_url image_prompt
         image_generated image_generated_at align (Some 0) is_mandatory
     = create_content_card cfg net course_id header1_text header2_text image_url image_prompt
         image_generated image_generated_at align None is_mandatory
   \<and> dict_get (content_card_data course_id header1_text header2_text image_url image_prompt
         image_generated image_generated_at align (Some 0) is_mandatory) ''sortOrder'' = None
   \<and> create_quiz_card cfg net course_id question options correct_answer comment (Some 0)
         is_mandatory
     = create_quiz_card cfg net course_id question options correct_answer comment None
         is_mandatory
   \<and> dict_get (quiz_card_data course_id question options correct_answer comment (Some 0)
         is_mandatory) ''sortOrder'' = None
   \<and> create_poll_card cfg net course_id question options (Some 0) is_mandatory
     = create_poll_card cfg net course_id question options None is_mandatory
   \<and> dict_get (poll_card_data course_id question options (Some 0) is_mandatory)
       ''sortOrder'' = None
   \<and> create_form_card cfg net course_id question (Some 0) is_mandatory
     = create_form_card cfg net course_id question None is_mandatory
   \<and> dict_get (form_card_data course_id question (Some 0) is_mandatory) ''sortOrder'' = None
   \<and> create_video_card cfg net course_id video_url (Some 0) is_mandatory
     = create_video_card cfg net course_id video_url None is_mandatory
   \<and> dict_get (video_card_data course_id video_url (Some 0) is_mandatory) ''sortOrder''
       = None
   \<and> create_link_card cfg net course_id title link_url link_caption (Some 0)
     = create_link_card cfg net course_id title link_url link_caption None
   \<and> dict_get (link_card_data course_id title link_url link_caption (Some 0)) ''sortOrder''
       = None"
proof -
  have same: "set_if_int d ''sortOrder'' (Some 0) = set_if_int d ''sortOrder'' None" for d
    by (simp add: set_if_int_def)
  show ?thesis
    by (simp add: create_audio_card_def create_content_card_def create_quiz_card_def
        create_poll_card_def create_form_card_def create_video_card_def
        create_link_card_def audio_card_data_def content_card_data_def quiz_card_data_def
        poll_card_data_def form_card_data_def video_card_data_def link_card_data_def
        Let_def same dict_get_simps)
qed

theorem sort_order_zero_is_omitted_witness:
  "create_video_card example_config offline ''c1'' ''https://cdn.example/v.mp4'' (Some 0) False
     = (Dumps (JObj [(''error'', JStr ''Request failed: connection refused'')]),
        [Request POST ''https://api.example/api/createCard''
           [(''Authorization'', ''Bearer secret''), (''Content-Type'', ''application/json'')]
           (Some (JObj [(''courseId'', JStr ''c1''), (''cardType'', JStr ''video''),
                        (''contents'', JObj [(''video'', JStr ''https://cdn.example/v.mp4'')]),
                        (''isMandatory'', JBool False)]))
           30])
   \<and> dict_get (video_card_data ''c1'' ''https://cdn.example/v.mp4'' (Some 0) False)
       ''sortOrder'' = None
   \<and> dict_get (video_card_data ''c1'' ''https://cdn.example/v.mp4'' (Some 3) False)
       ''sortOrder'' = Some (JInt 3)"
proof -
  have omitted:
    "create_video_card example_config offline ''c1'' ''https://cdn.example/v.mp4'' None False
       = (Dumps (JObj [(''error'', JStr ''Request failed: connection refused'')]),
          [Request POST ''https://api.example/api/createCard''
             [(''Authorization'', ''Bearer secret''), (''Content-Type'', ''application/json'')]
             (Some (JObj [(''courseId'', JStr ''c1''), (''cardType'', JStr ''video''),
                          (''contents'', JObj [(''video'', JStr ''https://cdn.example/v.mp4'')]),
                          (''isMandatory'', JBool False)]))
             30])"
    by (simp add: create_video_card_def video_card_data_def post_card_def
        make_api_request_def request_for_def upper_method_names Let_def read_outcome_def
        offline_def error_value_def example_config_def set_if_int_def)
  have three: "dict_get (video_card_data ''c1'' ''https://cdn.example/v.mp4'' (Some 3) False)
      ''sortOrder'' = Some (JInt 3)"
    by (simp add: video_card_data_def Let_def dict_get_simps)
  from omitted three
    sort_order_zero_is_omitted [where cfg = example_config and net = offline
      and course_id = "''c1''" and video_url = "''https://cdn.example/v.mp4''"
      and is_mandatory = False]
  show ?thesis
    by simp
qed

subsection \<open>The merge of update_card\<close>

lemma dict_get_dict_merge:
  "distinct (map fst b) \<Longrightarrow>
     dict_get (dict_merge a b) k = (case dict_get b k of Some v \<Rightarrow> Some v | None \<Rightarrow> dict_get a k)"
proof (induction b arbitrary: a)
  case Nil
  then show ?case
    by (simp add: dict_merge_def dict_get_Nil)
next
  case (Cons p b)
  obtain k' v' where p: "p = (k', v')"
    by (cases p)
  from Cons.prems p have fresh: "k' \<notin> fst ` set b" and rest: "distinct (map fst b)"
    by simp_all
  have step: "dict_merge a ((k', v') # b) = dict_merge (dict_set a k' v') b"
    by (simp add: dict_merge_def)
  from fresh have absent: "dict_get b k' = None"
    by (simp add: dict_get_def map_of_eq_None_iff)
  show ?case
  proof (cases "k = k'")
    case True
    with absent show ?thesis
      unfolding p step Cons.IH [OF rest]
      by (simp add: dict_get_Cons dict_get_dict_set split: option.splits)
  next
    case False
    then show ?thesis
      unfolding p step Cons.IH [OF rest]
      by (simp add: dict_get_Cons dict_get_dict_set split: option.splits)
  qed
qed

lemma map_fst_dict_set:
  "map fst (dict_set d k v) = (if k \<in> fst ` set d then map fst d else map fst d @ [k])"
  by (induction d) force+

lemma distinct_dict_set:
  "distinct (map fst d) \<Longrightarrow> distinct (map fst (dict_set d k v))"
  by (simp add: map_fst_dict_set)

lemma distinct_dict_merge:
  "distinct (map fst a) \<Longrightarrow> distinct (map fst (dict_merge a b))"
proof (induction b arbitrary: a)
  case Nil
  then show ?case
    by (simp add: dict_merge_def)
next
  case (Cons p b)
  obtain k v where p: "p = (k, v)"
    by (cases p)
  have "dict_merge a (p # b) = dict_merge (dict_set a k v) b"
    by (simp add: dict_merge_def p)
  with Cons.IH [of "dict_set a k v"] Cons.prems show ?case
    by (simp add: distinct_dict_set)
qed

lemma get_request:
  "make_api_request cfg net [] ''GET'' endpoint None =
     (read_outcome (net [] (Request GET (api_base_url cfg @ endpoint)
        [(''Authorization'', ''Bearer '' @ api_token cfg),
         (''Content-Type'', ''application/json'')] None 30)),
      [Request GET (api_base_url cfg @ endpoint)
        [(''Authorization'', ''Bearer '' @ api_token cfg),
         (''Content-Type'', ''application/json'')] None 30])"
  by (simp add: make_api_request_def request_for_def upper_method_names Let_def)

lemma put_request:
  "make_api_request cfg net log ''PUT'' endpoint (Some body) =
     (read_outcome (net log (Request PUT (api_base_url cfg @ endpoint)
        [(''Authorization'', ''Bearer '' @ api_token cfg),
         (''Content-Type'', ''application/json'')] (Some body) 30)),
      log @ [Request PUT (api_base_url cfg @ endpoint)
        [(''Authorization'', ''Bearer '' @ api_token cfg),
         (''Content-Type'', ''application/json'')] (Some body) 30])"
  by (simp add: make_api_request_def request_for_def upper_method_names Let_def)

lemma other_fields_contents:
  "dict_get (other_fields [(''contents'', c)] is_mandatory sort_order is_active card_type)
     ''contents'' = Some c"
  by (simp add: other_fields_def Let_def dict_get_simps)

lemma other_fields_not_empty:
  "other_fields [(''contents'', c)] is_mandatory sort_order is_active card_type \<noteq> []"
  using other_fields_contents [of c is_mandatory sort_order is_active card_type]
  by (auto simp: dict_get_Nil)

text \<open>
  C1. Let the GET of \<open>update_card\<close> return an object without the key \<^verbatim>\<open>error\<close>, whose
  \<^verbatim>\<open>contents\<close> are an object (or are absent, which counts as the empty object). Then the
  tool makes two requests, the GET and one PUT, and the contents in the body of the PUT
  are the merge of the fetched contents with the caller's: a key of the caller's contents
  has the caller's value, any other key has the fetched value if there is one.
\<close>

theorem update_card_merges:
  assumes fetched:
      "fst (make_api_request cfg net [] ''GET'' (''/api/card/'' @ card_id) None) = JObj current"
    and no_error: "dict_get current ''error'' = None"
    and current_contents:
      "(case dict_get current ''contents'' of None \<Rightarrow> JObj [] | Some c \<Rightarrow> c)
         = JObj current_contents"
    and keys: "distinct (map fst partial)"
  shows
    "(let headers = [(''Authorization'', ''Bearer '' @ api_token cfg),
                     (''Content-Type'', ''application/json'')];
          url = api_base_url cfg @ ''/api/card/'' @ card_id;
          update_data = other_fields [(''contents'', JObj (dict_merge current_contents partial))]
                          is_mandatory sort_order is_active card_type;
          get = Request GET url headers None 30;
          put = Request PUT url headers (Some (JObj update_data)) 30
      in update_card py_str cfg net card_id (Some partial) is_mandatory sort_order is_active
           card_type
           = (Inr (Dumps (read_outcome (net [get] put))), [get, put])
         \<and> dict_get update_data ''contents''
             = Some (JObj (dict_merge current_contents partial)))
     \<and> (\<forall>k. dict_get (dict_merge current_contents partial) k
              = (case dict_get partial k of
                   Some v \<Rightarrow> Some v
                 | None \<Rightarrow> dict_get current_contents k))"
proof -
  from fetched have got:
    "make_api_request cfg net [] ''GET'' (''/api/card/'' @ card_id) None
       = (JObj current,
          [Request GET (api_base_url cfg @ ''/api/card/'' @ card_id)
             [(''Authorization'', ''Bearer '' @ api_token cfg),
              (''Content-Type'', ''application/json'')] None 30])"
    by (simp add: get_request)
  have tool: "update_card py_str cfg net card_id (Some partial) is_mandatory sort_order
      is_active card_type
    = (let (out, log') =
             put_card cfg net
               [Request GET (api_base_url cfg @ ''/api/card/'' @ card_id)
                  [(''Authorization'', ''Bearer '' @ api_token cfg),
                   (''Content-Type'', ''application/json'')] None 30]
               card_id
               (other_fields [(''contents'', JObj (dict_merge current_contents partial))]
                  is_mandatory sort_order is_active card_type)
       in (Inr out, log'))"
    unfolding update_card_def got
    by (simp add: no_error current_contents Let_def)
  show ?thesis
    by (simp add: tool put_card_def other_fields_not_empty put_request Let_def
        other_fields_contents dict_get_dict_merge [OF keys])
qed

theorem update_card_merges_witness:
  "update_card (\<lambda>v. ''?'') example_config card_server ''k1''
      (Some [(''b'', JInt 3), (''c'', JInt 4)]) None None None None
     = (Inr (Dumps (JObj [(''ok'', JBool True)])),
        [Request GET ''https://api.example/api/card/k1''
           [(''Authorization'', ''Bearer secret''), (''Content-Type'', ''application/json'')]
           None 30,
         Request PUT ''https://api.example/api/card/k1''
           [(''Authorization'', ''Bearer secret''), (''Content-Type'', ''application/json'')]
           (Some (JObj [(''contents'',
                         JObj [(''a'', JInt 1), (''b'', JInt 3), (''c'', JInt 4)])]))
           30])"
proof -
  let ?current = "[(''id'', JStr ''k1''), (''contents'', JObj [(''a'', JInt 1), (''b'', JInt 2)])]"
  have fetched:
    "fst (make_api_request example_config card_server [] ''GET'' (''/api/card/'' @ ''k1'') None)
       = JObj ?current"
    by (simp add: get_request card_server_def read_outcome_def is_success_def)
  have no_error: "dict_get ?current ''error'' = None"
    by (simp add: dict_get_def)
  have current_contents:
    "(case dict_get ?current ''contents'' of None \<Rightarrow> JObj [] | Some c \<Rightarrow> c)
       = JObj [(''a'', JInt 1), (''b'', JInt 2)]"
    by (simp add: dict_get_def)
  have keys: "distinct (map fst [(''b'', JInt 3), (''c'', JInt 4)])"
    by simp
  have merged: "dict_merge [(''a'', JInt 1), (''b'', JInt 2)] [(''b'', JInt 3), (''c'', JInt 4)]
      = [(''a'', JInt 1), (''b'', JInt 3), (''c'', JInt 4)]"
    by (simp add: dict_merge_def)
  from update_card_merges [OF fetched no_error current_contents keys,
      where py_str = "\<lambda>v. ''?''" and is_mandatory = None and sort_order = None
      and is_active = None and card_type = None]
  show ?thesis
    by (simp add: Let_def merged other_fields_def set_if_not_none_bool_def
        set_if_not_none_int_def set_if_not_none_str_def example_config_def card_server_def
        read_outcome_def is_success_def)
qed

text \<open>
  C4. When the GET of \<open>update_card\<close> returns an object with the key \<^verbatim>\<open>error\<close>, the tool
  returns the error about the failed fetch, and the GET is the only request it has made:
  there is no PUT.
\<close>

theorem update_card_aborts_on_failed_read:
  assumes fetched:
      "fst (make_api_request cfg net [] ''GET'' (''/api/card/'' @ card_id) None) = JObj current"
    and failed: "dict_get current ''error'' = Some e"
  shows
    "update_card py_str cfg net card_id (Some partial) is_mandatory sort_order is_active
       card_type
     = (Inr (Dumps (JObj [(''error'',
                           JStr (''Failed to fetch card for update: ''
                                   @ format_value py_str e))])),
        [Request GET (api_base_url cfg @ ''/api/card/'' @ card_id)
           [(''Authorization'', ''Bearer '' @ api_token cfg),
            (''Content-Type'', ''application/json'')] None 30])"
proof -
  from fetched have got:
    "make_api_request cfg net [] ''GET'' (''/api/card/'' @ card_id) None
       = (JObj current,
          [Request GET (api_base_url cfg @ ''/api/card/'' @ card_id)
             [(''Authorization'', ''Bearer '' @ api_token cfg),
              (''Content-Type'', ''application/json'')] None 30])"
    by (simp add: get_request)
  show ?thesis
    unfolding update_card_def got
    by (simp add: failed error_value_def)
qed

theorem update_card_aborts_on_failed_read_witness:
  "update_card (\<lambda>v. ''?'') example_config offline ''k1''
      (Some [(''b'', JInt 3), (''c'', JInt 4)]) (Some True) (Some 2) None None
     = (Inr (Dumps (JObj [(''error'',
          JStr ''Failed to fetch card for update: Request failed: connection refused'')])),
        [Request GET ''https://api.example/api/card/k1''
           [(''Authorization'', ''Bearer secret''), (''Content-Type'', ''application/json'')]
           None 30])"
proof -
  have fetched:
    "fst (make_api_request example_config offline [] ''GET'' (''/api/card/'' @ ''k1'') None)
       = JObj [(''error'', JStr ''Request failed: connection refused'')]"
    by (simp add: get_request offline_def read_outcome_def error_value_def)
  have failed:
    "dict_get [(''error'', JStr ''Request failed: connection refused'')] ''error''
       = Some (JStr ''Request failed: connection refused'')"
    by (simp add: dict_get_def)
  from update_card_aborts_on_failed_read [OF fetched failed,
      where py_str = "\<lambda>v. ''?''" and partial = "[(''b'', JInt 3), (''c'', JInt 4)]"
      and is_mandatory = "Some True" and sort_order = "Some 2" and is_active = None
      and card_type = None]
  show ?thesis
    by (simp add: format_value_def example_config_def)
qed

subsection \<open>The size of a generated image\<close>

lemma size_format_ok_sizes:
  "size_format_ok ''1024x1024''" "size_format_ok ''1024x1536''" "size_format_ok ''1536x1024''"
  by (simp_all add: size_format_ok_def is_digit_def)

lemma size_format_ok_size_for_aspect_ratio:
  "size_format_ok (size_for_aspect_ratio aspect_ratio)"
  by (simp add: size_for_aspect_ratio_def Let_def size_format_ok_sizes)

text \<open>A generation with a well-formed size and format makes exactly one request.\<close>

lemma generate_and_upload_image_log:
  "size_format_ok size' \<Longrightarrow> output_format \<in> set [''png'', ''jpg''] \<Longrightarrow>
     snd (generate_and_upload_image m prompt title size' output_format)
       = [image_request_for m prompt size' output_format]"
  by (simp add: generate_and_upload_image_def generate_image_with_azure_openai_def Let_def
      split: sum.splits)

lemma tool_output_log:
  "snd (case r of (Inl e, log) \<Rightarrow> (f e, log) | (Inr u, log) \<Rightarrow> (g u, log)) = snd r"
  by (cases r) (auto split: sum.splits)

text \<open>
  C5. The size that \<open>generate_image_from_text\<close> asks for is 1024x1024 for square,
  1024x1536 for portrait and 1536x1024 for landscape, in any letter case; every other
  aspect ratio, and none, gives 1024x1024. With a valid output format the tool makes one
  image request, whose size is this one, so an unknown aspect ratio is not an error.
\<close>

theorem aspect_ratio_sizes:
  "(lower a = ''square'' \<longrightarrow> size_for_aspect_ratio (Some a) = ''1024x1024'')
   \<and> (lower a = ''portrait'' \<longrightarrow> size_for_aspect_ratio (Some a) = ''1024x1536'')
   \<and> (lower a = ''landscape'' \<longrightarrow> size_for_aspect_ratio (Some a) = ''1536x1024'')
   \<and> (lower a \<noteq> ''square'' \<and> lower a \<noteq> ''portrait'' \<and> lower a \<noteq> ''landscape'' \<longrightarrow>
        size_for_aspect_ratio (Some a) = ''1024x1024'')
   \<and> size_for_aspect_ratio None = ''1024x1024''
   \<and> ((case output_format of None \<Rightarrow> ''png'' | Some f \<Rightarrow> f) \<in> set [''png'', ''jpg''] \<longrightarrow>
        snd (generate_image_from_text m prompt title aspect_ratio output_format)
          = [image_request_for m prompt (size_for_aspect_ratio aspect_ratio)
               (case output_format of None \<Rightarrow> ''png'' | Some f \<Rightarrow> f)]
        \<and> dict_get (image_request_data prompt (size_for_aspect_ratio aspect_ratio)
                       (case output_format of None \<Rightarrow> ''png'' | Some f \<Rightarrow> f)) ''size''
            = Some (JStr (size_for_aspect_ratio aspect_ratio)))"
proof -
  have sizes:
    "(lower a = ''square'' \<longrightarrow> size_for_aspect_ratio (Some a) = ''1024x1024'')
     \<and> (lower a = ''portrait'' \<longrightarrow> size_for_aspect_ratio (Some a) = ''1024x1536'')
     \<and> (lower a = ''landscape'' \<longrightarrow> size_for_aspect_ratio (Some a) = ''1536x1024'')
     \<and> (lower a \<noteq> ''square'' \<and> lower a \<noteq> ''portrait'' \<and> lower a \<noteq> ''landscape'' \<longrightarrow>
          size_for_aspect_ratio (Some a) = ''1024x1024'')
     \<and> size_for_aspect_ratio None = ''1024x1024''"
    by (simp add: size_for_aspect_ratio_def lower_def lower_char_def)
  have field: "dict_get (image_request_data prompt s f) ''size'' = Some (JStr s)" for s f
    by (simp add: image_request_data_def dict_get_simps)
  have request:
    "snd (generate_image_from_text m prompt title aspect_ratio output_format)
       = [image_request_for m prompt (size_for_aspect_ratio aspect_ratio)
            (case output_format of None \<Rightarrow> ''png'' | Some f \<Rightarrow> f)]"
    if valid: "(case output_format of None \<Rightarrow> ''png'' | Some f \<Rightarrow> f) \<in> set [''png'', ''jpg'']"
  proof -
    have made:
      "snd (generate_and_upload_image m prompt title (size_for_aspect_ratio aspect_ratio)
              (case output_format of None \<Rightarrow> ''png'' | Some f \<Rightarrow> f))
         = [image_request_for m prompt (size_for_aspect_ratio aspect_ratio)
              (case output_format of None \<Rightarrow> ''png'' | Some f \<Rightarrow> f)]"
      by (rule generate_and_upload_image_log [OF size_format_ok_size_for_aspect_ratio valid])
    from valid made show ?thesis
      unfolding generate_image_from_text_def Let_def
      by (simp only: if_not_P tool_output_log not_not)
  qed
  from sizes field request show ?thesis
    by blast
qed

theorem aspect_ratio_sizes_witness:
  "size_for_aspect_ratio (Some ''square'') = ''1024x1024''
   \<and> size_for_aspect_ratio (Some ''portrait'') = ''1024x1536''
   \<and> size_for_aspect_ratio (Some ''Landscape'') = ''1536x1024''
   \<and> size_for_aspect_ratio (Some ''bogus'') = ''1024x1024''
   \<and> snd (generate_image_from_text example_media ''a red fox'' ''Fox'' (Some ''portrait'') None)
       = [Image_request ''https://img.example/openai/deployments/gpt-image-1/images/generations''
            [(''Content-Type'', ''application/json''), (''api-key'', ''key'')]
            (JObj [(''prompt'', JStr ''a red fox''), (''size'', JStr ''1024x1536''),
                   (''quality'', JStr ''medium''), (''output_compression'', JInt 100),
                   (''output_format'', JStr ''png''), (''n'', JInt 1)])
            [(''api-version'', ''2025-04-01-preview'')] 60]
   \<and> snd (generate_image_from_text example_media ''a red fox'' ''Fox'' (Some ''bogus'')
            (Some ''jpg''))
       = [Image_request ''https://img.example/openai/deployments/gpt-image-1/images/generations''
            [(''Content-Type'', ''application/json''), (''api-key'', ''key'')]
            (JObj [(''prompt'', JStr ''a red fox''), (''size'', JStr ''1024x1024''),
                   (''quality'', JStr ''medium''), (''output_compression'', JInt 100),
                   (''output_format'', JStr ''jpg''), (''n'', JInt 1)])
            [(''api-version'', ''2025-04-01-preview'')] 60]"
proof -
  have low: "lower ''square'' = ''square''" "lower ''portrait'' = ''portrait''"
    "lower ''Landscape'' = ''landscape''"
    "lower ''bogus'' \<noteq> ''square'' \<and> lower ''bogus'' \<noteq> ''portrait''
       \<and> lower ''bogus'' \<noteq> ''landscape''"
    by (simp_all add: lower_def lower_char_def)
  have fmt: "(case None of None \<Rightarrow> ''png'' | Some f \<Rightarrow> f) \<in> set [''png'', ''jpg'']"
    "(case Some ''jpg'' of None \<Rightarrow> ''png'' | Some f \<Rightarrow> f) \<in> set [''png'', ''jpg'']"
    by simp_all
  from low(1) aspect_ratio_sizes [of "''square''" None]
  have s1: "size_for_aspect_ratio (Some ''square'') = ''1024x1024''"
    by blast
  from low(2) fmt(1)
    aspect_ratio_sizes [of "''portrait''" None example_media "''a red fox''" "''Fox''"
      "Some ''portrait''"]
  have s2: "size_for_aspect_ratio (Some ''portrait'') = ''1024x1536''"
    and r2: "snd (generate_image_from_text example_media ''a red fox'' ''Fox''
                    (Some ''portrait'') None)
             = [image_request_for example_media ''a red fox''
                  (size_for_aspect_ratio (Some ''portrait''))
                  (case None of None \<Rightarrow> ''png'' | Some f \<Rightarrow> f)]"
    by blast+
  from low(3) aspect_ratio_sizes [of "''Landscape''" None]
  have s3: "size_for_aspect_ratio (Some ''Landscape'') = ''1536x1024''"
    by blast
  from low(4) fmt(2)
    aspect_ratio_sizes [of "''bogus''" "Some ''jpg''" example_media "''a red fox''" "''Fox''"
      "Some ''bogus''"]
  have s4: "size_for_aspect_ratio (Some ''bogus'') = ''1024x1024''"
    and r4: "snd (generate_image_from_text example_media ''a red fox'' ''Fox''
                    (Some ''bogus'') (Some ''jpg''))
             = [image_request_for example_media ''a red fox''
                  (size_for_aspect_ratio (Some ''bogus''))
                  (case Some ''jpg'' of None \<Rightarrow> ''png'' | Some f \<Rightarrow> f)]"
    by blast+
  from s1 s2 s3 s4 r2 r4 show ?thesis
    by (simp add: image_request_for_def image_request_data_def example_media_def)
qed

text \<open>
  C7. \<open>generate_background_image_for_audio\<close> makes exactly one image request, and its
  size is 1024x1536 for every prompt, title and environment: the tool has no parameter
  for the size.
\<close>

theorem background_image_is_portrait:
  "snd (generate_background_image_for_audio m prompt title)
     = [image_request_for m prompt ''1024x1536'' ''png'']
   \<and> img_json (image_request_for m prompt ''1024x1536'' ''png'')
       = JObj (image_request_data prompt ''1024x1536'' ''png'')
   \<and> dict_get (image_request_data prompt ''1024x1536'' ''png'') ''size''
       = Some (JStr ''1024x1536'')"
proof -
  have png: "''png'' \<in> set [''png'', ''jpg'']"
    by simp
  have request: "snd (generate_background_image_for_audio m prompt title)
      = [image_request_for m prompt ''1024x1536'' ''png'']"
    unfolding generate_background_image_for_audio_def Let_def tool_output_log
    by (rule generate_and_upload_image_log [OF size_format_ok_sizes(2) png])
  show ?thesis
    by (simp add: request image_request_for_def image_request_data_def dict_get_simps)
qed

theorem background_image_is_portrait_witness:
  "snd (generate_background_image_for_audio example_media ''a calm lake'' ''Lake'')
     = [Image_request ''https://img.example/openai/deployments/gpt-image-1/images/generations''
          [(''Content-Type'', ''application/json''), (''api-key'', ''key'')]
          (JObj [(''prompt'', JStr ''a calm lake''), (''size'', JStr ''1024x1536''),
                 (''quality'', JStr ''medium''), (''output_compression'', JInt 100),
                 (''output_format'', JStr ''png''), (''n'', JInt 1)])
          [(''api-version'', ''2025-04-01-preview'')] 60]"
  using background_image_is_portrait [of example_media "''a calm lake''" "''Lake''"]
  by (simp add: image_request_for_def image_request_data_def example_media_def)

subsection \<open>The headers of a content card\<close>

text \<open>
  One pass of \<open>replace\<close> over a written header removes the pieces that are the tag and
  nothing else: a tag starts with \<open><\<close>, which a run of plain text does not have, and
  no tag is the start of another.
\<close>

lemma replace_ne_plain:
  "CHR ''<'' \<notin> set s \<Longrightarrow>
     replace_ne (CHR ''<'' # t) new (s @ r) = s @ replace_ne (CHR ''<'' # t) new r"
  by (induction s) auto

lemma render_Cons: "render (p # ps) = piece_text p @ render ps"
  by (simp add: render_def)

lemma replace_ne_render:
  assumes "well_marked ps" and "T \<in> {Bold_open, Bold_close, Italic_open, Italic_close}"
  shows "replace_ne (piece_text T) [] (render ps) = render (filter (\<lambda>p. p \<noteq> T) ps)"
  using assms(1)
proof (induction ps)
  case Nil
  then show ?case
    by (simp add: render_def)
next
  case (Cons p ps)
  then have marked: "no_bracket p"
    and IH: "replace_ne (piece_text T) [] (render ps) = render (filter (\<lambda>p. p \<noteq> T) ps)"
    by (simp_all add: well_marked_def)
  show ?case
  proof (cases p)
    case (Plain s)
    with marked assms(2) IH show ?thesis
      by (auto simp: render_Cons replace_ne_plain)
  next
    case Bold_open
    with assms(2) IH show ?thesis
      by (auto simp: render_Cons)
  next
    case Bold_close
    with assms(2) IH show ?thesis
      by (auto simp: render_Cons)
  next
    case Italic_open
    with assms(2) IH show ?thesis
      by (auto simp: render_Cons)
  next
    case Italic_close
    with assms(2) IH show ?thesis
      by (auto simp: render_Cons)
  qed
qed

lemma well_marked_filter: "well_marked ps \<Longrightarrow> well_marked (filter P ps)"
  by (induction ps) (auto simp: well_marked_def)

lemma render_plain_pieces:
  "render (filter (\<lambda>p. p \<noteq> Italic_close) (filter (\<lambda>p. p \<noteq> Italic_open)
     (filter (\<lambda>p. p \<noteq> Bold_close) (filter (\<lambda>p. p \<noteq> Bold_open) ps))))
   = plain_text ps"
proof (induction ps)
  case Nil
  then show ?case
    by (simp add: render_def plain_text_def)
next
  case (Cons p ps)
  then show ?case
    by (cases p) (simp_all add: render_def plain_text_def)
qed

lemma strip_tags_render:
  assumes "well_marked ps"
  shows "strip_tags (render ps) = plain_text ps"
proof -
  let ?a = "filter (\<lambda>p. p \<noteq> Bold_open) ps"
  let ?b = "filter (\<lambda>p. p \<noteq> Bold_close) ?a"
  let ?c = "filter (\<lambda>p. p \<noteq> Italic_open) ?b"
  let ?d = "filter (\<lambda>p. p \<noteq> Italic_close) ?c"
  have first: "replace (render ps) ''<b>'' '''' = render ?a"
    using replace_ne_render [OF assms, of Bold_open] by (simp add: replace_def)
  have ma: "well_marked ?a"
    by (rule well_marked_filter [OF assms])
  have second: "replace (render ?a) ''</b>'' '''' = render ?b"
    using replace_ne_render [OF ma, of Bold_close] by (simp add: replace_def)
  have mb: "well_marked ?b"
    by (rule well_marked_filter [OF ma])
  have third: "replace (render ?b) ''<i>'' '''' = render ?c"
    using replace_ne_render [OF mb, of Italic_open] by (simp add: replace_def)
  have mc: "well_marked ?c"
    by (rule well_marked_filter [OF mb])
  have fourth: "replace (render ?c) ''</i>'' '''' = render ?d"
    using replace_ne_render [OF mc, of Italic_close] by (simp add: replace_def)
  show ?thesis
    unfolding strip_tags_def first second third fourth
    by (rule render_plain_pieces)
qed

lemma remove_tags_plain:
  "CHR ''<'' \<notin> set s \<Longrightarrow> remove_tags (s @ r) = s @ remove_tags r"
  by (induction s) auto

lemma plain_text_Cons: "plain_text (p # ps) = plain_of p @ plain_text ps"
  by (simp add: plain_text_def)

lemma remove_tags_render:
  "well_marked ps \<Longrightarrow> remove_tags (render ps) = plain_text ps"
proof (induction ps)
  case Nil
  then show ?case
    by (simp add: render_def plain_text_def)
next
  case (Cons p ps)
  then have marked: "no_bracket p" and IH: "remove_tags (render ps) = plain_text ps"
    by (simp_all add: well_marked_def)
  from marked IH show ?case
    by (cases p) (simp_all add: render_Cons plain_text_Cons remove_tags_plain)
qed

text \<open>
  C9, as the code has it. The contents of a content card hold the header twice: under
  \<^verbatim>\<open>_header1\<close> the object with the raw text, the visibility and the size, and under
  \<^verbatim>\<open>header1\<close> the text after four passes, which delete every \<open><b>\<close>, then every
  \<open></b>\<close>, then every \<open><i>\<close>, then every \<open></i>\<close>, each pass reading the result of
  the pass before. For a header written from plain runs and the four tags this is the
  header with exactly its tags removed, and its plain text. A second header that is given
  and is not the empty string is stored in the same two ways under \<^verbatim>\<open>_header2\<close> and
  \<^verbatim>\<open>header2\<close>; without a second header, or with the empty string for it, the contents
  have neither key.
\<close>

theorem content_card_headers:
  "(let contents = content_contents header1_text header2_text image_url image_prompt
                     image_generated image_generated_at align
    in dict_get contents ''_header1''
         = Some (JObj [(''text'', JStr header1_text), (''visibility'', JBool True),
                       (''size'', JStr ''medium'')])
       \<and> dict_get contents ''header1''
           = Some (JStr (replace (replace (replace (replace header1_text ''<b>'' '''')
                                    ''</b>'' '''') ''<i>'' '''') ''</i>'' ''''))
       \<and> (header2_text = Some second \<and> second \<noteq> [] \<longrightarrow>
            dict_get contents ''_header2''
              = Some (JObj [(''text'', JStr second), (''visibility'', JBool True),
                            (''size'', JStr ''medium'')])
            \<and> dict_get contents ''header2''
                = Some (JStr (replace (replace (replace (replace second ''<b>'' '''')
                                         ''</b>'' '''') ''<i>'' '''') ''</i>'' '''')))
       \<and> (header2_text = None \<or> header2_text = Some [] \<longrightarrow>
            dict_get contents ''_header2'' = None \<and> dict_get contents ''header2'' = None))
   \<and> (well_marked ps \<longrightarrow>
        replace (replace (replace (replace (render ps) ''<b>'' '''') ''</b>'' '''')
          ''<i>'' '''') ''</i>'' '''' = remove_tags (render ps)
        \<and> remove_tags (render ps) = plain_text ps)"
proof -
  have stored: "dict_get (content_contents header1_text header2_text image_url image_prompt
                     image_generated image_generated_at align) ''_header1''
         = Some (JObj [(''text'', JStr header1_text), (''visibility'', JBool True),
                       (''size'', JStr ''medium'')])"
    by (simp add: content_contents_def Let_def dict_get_simps header_def
        split: option.splits)
  have stripped: "dict_get (content_contents header1_text header2_text image_url image_prompt
                     image_generated image_generated_at align) ''header1''
         = Some (JStr (strip_tags header1_text))"
    by (simp add: content_contents_def Let_def dict_get_simps split: option.splits)
  have second: "dict_get (content_contents header1_text header2_text image_url image_prompt
                     image_generated image_generated_at align) ''_header2''
         = Some (JObj [(''text'', JStr second), (''visibility'', JBool True),
                       (''size'', JStr ''medium'')])
      \<and> dict_get (content_contents header1_text header2_text image_url image_prompt
                     image_generated image_generated_at align) ''header2''
         = Some (JStr (strip_tags second))"
    if "header2_text = Some second" and "second \<noteq> []"
    using that
    by (simp add: content_contents_def Let_def dict_get_simps header_def
        split: option.splits)
  have none: "dict_get (content_contents header1_text header2_text image_url image_prompt
                     image_generated image_generated_at align) ''_header2'' = None
      \<and> dict_get (content_contents header1_text header2_text image_url image_prompt
                     image_generated image_generated_at align) ''header2'' = None"
    if "header2_text = None \<or> header2_text = Some []"
    using that
    by (auto simp: content_contents_def Let_def dict_get_simps split: option.splits)
  from stored stripped second none strip_tags_render [of ps] remove_tags_render [of ps]
  show ?thesis
    unfolding Let_def strip_tags_def by auto
qed

theorem content_card_headers_witness:
  "dict_get (content_contents ''<b>Hello</b> <i>world</i>'' (Some ''the <i>second</i> line'')
               None None None None ''center center'') ''_header1''
     = Some (JObj [(''text'', JStr ''<b>Hello</b> <i>world</i>''), (''visibility'', JBool True),
                   (''size'', JStr ''medium'')])
   \<and> dict_get (content_contents ''<b>Hello</b> <i>world</i>'' (Some ''the <i>second</i> line'')
                 None None None None ''center center'') ''header1''
       = Some (JStr ''Hello world'')
   \<and> dict_get (content_contents ''<b>Hello</b> <i>world</i>'' (Some ''the <i>second</i> line'')
                 None None None None ''center center'') ''_header2''
       = Some (JObj [(''text'', JStr ''the <i>second</i> line''), (''visibility'', JBool True),
                     (''size'', JStr ''medium'')])
   \<and> dict_get (content_contents ''<b>Hello</b> <i>world</i>'' (Some ''the <i>second</i> line'')
                 None None None None ''center center'') ''header2''
       = Some (JStr ''the second line'')
   \<and> dict_get (content_contents ''<b>Hello</b> <i>world</i>'' None None None None None
                 ''center center'') ''_header2'' = None
   \<and> replace (replace (replace (replace
         (render [Bold_open, Plain ''Hello'', Bold_close, Plain '' '', Italic_open,
                  Plain ''world'', Italic_close])
         ''<b>'' '''') ''</b>'' '''') ''<i>'' '''') ''</i>'' ''''
       = remove_tags (render [Bold_open, Plain ''Hello'', Bold_close, Plain '' '', Italic_open,
                              Plain ''world'', Italic_close])
   \<and> remove_tags (render [Bold_open, Plain ''Hello'', Bold_close, Plain '' '', Italic_open,
                            Plain ''world'', Italic_close]) = ''Hello world''"
proof -
  let ?ps = "[Bold_open, Plain ''Hello'', Bold_close, Plain '' '', Italic_open,
              Plain ''world'', Italic_close]"
  have given: "Some ''the <i>second</i> line'' = Some ''the <i>second</i> line''
      \<and> ''the <i>second</i> line'' \<noteq> []"
    by simp
  have marked: "well_marked ?ps"
    by (simp add: well_marked_def)
  have h1: "replace (replace (replace (replace ''<b>Hello</b> <i>world</i>'' ''<b>'' '''')
              ''</b>'' '''') ''<i>'' '''') ''</i>'' '''' = ''Hello world''"
    by (simp add: replace_def)
  have h2: "replace (replace (replace (replace ''the <i>second</i> line'' ''<b>'' '''')
              ''</b>'' '''') ''<i>'' '''') ''</i>'' '''' = ''the second line''"
    by (simp add: replace_def)
  have plain: "plain_text ?ps = ''Hello world''"
    by (simp add: plain_text_def)
  from given marked
    content_card_headers [where header1_text = "''<b>Hello</b> <i>world</i>''"
      and header2_text = "Some ''the <i>second</i> line''" and second = "''the <i>second</i> line''"
      and image_url = None and image_prompt = None and image_generated = None
      and image_generated_at = None and align = "''center center''" and ps = ?ps]
    content_card_headers [where header1_text = "''<b>Hello</b> <i>world</i>''"
      and header2_text = None and image_url = None and image_prompt = None
      and image_generated = None and image_generated_at = None
      and align = "''center center''" and ps = ?ps]
  show ?thesis
    unfolding Let_def h1 h2 plain by blast
qed

text \<open>
  Where the code leaves the words "exactly the literal tags removed" and "when
  \<open>header2_text\<close> is supplied". In \<open><<b>/b>\<close> the only tag is the \<open><b>\<close> in the middle, and
  without it the text is \<open></b>\<close>; the second pass of the code deletes that too, and
  \<^verbatim>\<open>header1\<close> is empty. In \<open><<b>b>x\<close> the first pass leaves \<open><b>x\<close>, and no later pass
  looks for \<open><b>\<close>: the tag stays in \<^verbatim>\<open>header1\<close>. A second header that is the empty string
  is supplied and is not stored: the contents have neither key.
\<close>

theorem content_card_headers_counterexample:
  "dict_get (content_contents ''<<b>/b>'' None None None None None ''center center'')
     ''header1'' \<noteq> Some (JStr (remove_tags ''<<b>/b>''))
   \<and> dict_get (content_contents ''<<b>/b>'' None None None None None ''center center'')
       ''header1'' = Some (JStr '''')
   \<and> remove_tags ''<<b>/b>'' = ''</b>''
   \<and> dict_get (content_contents ''<<b>b>x'' None None None None None ''center center'')
       ''header1'' = Some (JStr ''<b>x'')
   \<and> dict_get (content_contents ''Title'' (Some '''') None None None None ''center center'')
       ''_header2'' = None
   \<and> dict_get (content_contents ''Title'' (Some '''') None None None None ''center center'')
       ''header2'' = None"
  by (simp add: content_contents_def Let_def dict_get_simps strip_tags_def replace_def)

end
